theory Spec2Isabelle
  imports Main "HOL-Library.AList"
begin

section \<open>Values of the canister\<close>

text \<open>
  The Candid type \<^verbatim>\<open>text\<close> is a JavaScript string, here \<^typ>\<open>string\<close>. A
  \<^typ>\<open>char\<close> stands for one UTF-16 code unit in the range 0..255 (Latin-1), so that
  \<^verbatim>\<open>length\<close> counts what \<^verbatim>\<open>.length\<close> counts.
  \<^verbatim>\<open>nat64\<close> values are BigInts that were decoded from an unsigned Candid number: they are
  never negative and \<^verbatim>\<open>+\<close>, \<^verbatim>\<open>*\<close> do not wrap, hence \<^typ>\<open>nat\<close>. A \<^verbatim>\<open>Principal\<close> is
  represented by its text form.
\<close>

type_synonym nat64 = nat
type_synonym Principal = string

datatype Message =
    Success string
  | Error string
  | NotFound string
  | InvalidPayload string

subsection \<open>String primitives of the host language\<close>

text \<open>
  \<^verbatim>\<open>\s\<close> in a regular expression and the characters removed by \<^verbatim>\<open>trim()\<close> are the same
  set; within Latin-1 these are TAB, LF, VT, FF, CR, SPACE and NBSP.
\<close>

definition is_ws :: "char \<Rightarrow> bool" where
  "is_ws c = (of_char c \<in> {9, 10, 11, 12, 13, 32, 160 :: nat})"

definition is_digit :: "char \<Rightarrow> bool" where
  "is_digit c = (48 \<le> (of_char c :: nat) \<and> (of_char c :: nat) \<le> 57)"

definition trim :: "string \<Rightarrow> string" where
  "trim t = rev (dropWhile is_ws (rev (dropWhile is_ws t)))"

definition lower_char :: "char \<Rightarrow> char" where
  "lower_char c =
     (let n = (of_char c :: nat)
      in if (65 \<le> n \<and> n \<le> 90) \<or> (192 \<le> n \<and> n \<le> 222 \<and> n \<noteq> 215)
         then char_of (n + 32) else c)"

definition toLowerCase :: "string \<Rightarrow> string" where
  "toLowerCase t = map lower_char t"

text \<open>\<^verbatim>\<open>[^\s@]\<close>\<close>

definition not_ws_at :: "char \<Rightarrow> bool" where
  "not_ws_at c = (\<not> is_ws c \<and> c \<noteq> CHR ''@'')"

text \<open>
  \<^verbatim>\<open>/^[^\s@]+@[^\s@]+\.[^\s@]+$/.test(email)\<close>. The first group cannot contain \<^verbatim>\<open>@\<close>, so
  it is the longest prefix of class characters and the next character has to be \<^verbatim>\<open>@\<close>; the
  rest consists of class characters only (a dot is one of them) with a dot that is neither
  its first nor its last character.
\<close>

definition emailRegex_test :: "string \<Rightarrow> bool" where
  "emailRegex_test email =
     (takeWhile not_ws_at email \<noteq> [] \<and>
      (case dropWhile not_ws_at email of
         [] \<Rightarrow> False
       | c # d \<Rightarrow> c = CHR ''@'' \<and> list_all not_ws_at d \<and> CHR ''.'' \<in> set (butlast (tl d))))"

text \<open>\<^verbatim>\<open>/^[0-9]{10,15}$/.test(phone)\<close>\<close>

definition phoneRegex_test :: "string \<Rightarrow> bool" where
  "phoneRegex_test phone = (list_all is_digit phone \<and> 10 \<le> length phone \<and> length phone \<le> 15)"

text \<open>\<^verbatim>\<open>phone.replace(/\D/g, "")\<close>\<close>

definition strip_non_digits :: "string \<Rightarrow> string" where
  "strip_non_digits phone = filter is_digit phone"

subsection \<open>Records\<close>

record Researcher =
  r_id :: string
  r_name :: string
  r_address :: string
  r_email :: string
  r_phone :: string
  r_owner :: Principal
  r_reputation_score :: nat64
  r_total_points :: nat64
  r_badges :: "string list"
  r_contributions :: "string list"
  r_achievements :: "string list"

record ResearchProposal =
  p_id :: string
  p_researcherId :: string
  p_title :: string
  p_description :: string
  p_methodology :: string
  p_milestones :: "string list"
  p_funding_target :: nat64
  p_current_funding :: nat64
  p_stage :: string
  p_reviews :: "string list"
  p_timeline :: string

record Milestone =
  m_id :: string
  m_description :: string
  m_required_funding :: nat64
  m_deadline :: string
  m_status :: string
  m_proofs :: "string list"

record Review =
  rv_id :: string
  rv_reviewer :: Principal
  rv_score :: nat64
  rv_comments :: string
  rv_stake_amount :: nat64
  rv_verified :: bool

record ProofOfReproduction =
  pf_id :: string
  pf_methodology_hash :: string
  pf_results_hash :: string
  pf_status :: string

subsection \<open>Payloads\<close>

record researcherPayload =
  rp_name :: string
  rp_address :: string
  rp_email :: string
  rp_phone :: string

record CreateProposalPayload =
  cp_researcherId :: string
  cp_title :: string
  cp_description :: string
  cp_methodology :: string
  cp_funding_target :: nat64

record SubmitReviewPayload =
  sr_proposal_id :: string
  sr_score :: nat64
  sr_comments :: string
  sr_stake_amount :: nat64

record FundProposalPayload =
  fp_proposal_id :: string
  fp_funding_amount :: nat64

record CreateMilestonePayload =
  cm_proposal_id :: string
  cm_description :: string
  cm_required_funding :: nat64
  cm_deadline :: string

record VerifyMilestonePayload =
  vm_proposal_id :: string
  vm_milestone_id :: string

record SubmitProofPayload =
  sp_milestone_id :: string
  sp_methodology_hash :: string
  sp_results_hash :: string

subsection \<open>The entity store\<close>

text \<open>
  Modelled from the spec: the key-value store behind \<^verbatim>\<open>StableBTreeMap\<close> (its library is
  not part of the sources). Its contract is \<^verbatim>\<open>get(key) -> record option\<close>,
  \<^verbatim>\<open>insert(key, record)\<close> and \<^verbatim>\<open>values() -> sequence of all records\<close>, order unspecified.
  A store is an association list read through \<open>map_of\<close>, and \<open>values_of\<close> lists exactly the
  records that \<open>get\<close> can return. The two canisters of index.ts import the store from
  different libraries and see the result of \<^verbatim>\<open>get\<close> differently; that is described with
  each canister. The numbers in a payload are \<^verbatim>\<open>nat64\<close> values, below \<open>2 ^ 64\<close>, and a record
  built from them can always be stored; the one place where a handler hands the store a
  number it has computed is \<^verbatim>\<open>fundProposal\<close>, where the failing \<^verbatim>\<open>insert\<close> is written out.
\<close>

type_synonym 'v store = "(string \<times> 'v) list"

definition get :: "'v store \<Rightarrow> string \<Rightarrow> 'v option" where
  "get st k = map_of st k"

definition insert_store :: "'v store \<Rightarrow> string \<Rightarrow> 'v \<Rightarrow> 'v store" where
  "insert_store st k v = AList.update k v st"

definition values_of :: "'v store \<Rightarrow> 'v list" where
  "values_of st = map snd (AList.clearjunk st)"

record state =
  researchers :: "Researcher store"
  proposals :: "ResearchProposal store"
  milestones :: "Milestone store"
  reviews :: "Review store"
  proofs :: "ProofOfReproduction store"

definition init_state :: state where
  "init_state = \<lparr>researchers = [], proposals = [], milestones = [], reviews = [], proofs = []\<rparr>"

section \<open>The canister with the ID check (first canister of index.ts)\<close>

subsection \<open>What the handlers see of the store\<close>

text \<open>
  The first canister imports the store from \<^verbatim>\<open>azle/experimental\<close>. Its handlers test the
  result of \<^verbatim>\<open>get\<close> for a miss with \<^verbatim>\<open>!opt\<close>, which holds of \<^verbatim>\<open>null\<close> and of no object:
  \<^verbatim>\<open>get\<close> returns the stored record, or \<^verbatim>\<open>null\<close> (\<open>get_or_null\<close>). After the miss test the
  handlers read \<^verbatim>\<open>opt.Some\<close>. None of the records has a property \<^verbatim>\<open>Some\<close>, so the read
  yields \<^verbatim>\<open>undefined\<close> (\<open>dot_Some\<close>), and the first access to a property of that value
  (\<^verbatim>\<open>proposal.reviews\<close>, \<^verbatim>\<open>proposal.current_funding\<close>, \<^verbatim>\<open>milestone.status\<close>, ...) throws a
  \<^verbatim>\<open>TypeError\<close> (\<open>access\<close>). The text of its message is the JavaScript engine's; it is an
  input \<open>te\<close> of the handlers that can throw one.
\<close>

datatype 'v jsval = Undefined | Null | Obj 'v

definition get_or_null :: "'v store \<Rightarrow> string \<Rightarrow> 'v jsval" where
  "get_or_null st k = (case get st k of None \<Rightarrow> Null | Some v \<Rightarrow> Obj v)"

text \<open>\<^verbatim>\<open>!opt\<close>\<close>

definition falsy :: "'v jsval \<Rightarrow> bool" where
  "falsy opt = (opt = Undefined \<or> opt = Null)"

text \<open>
  \<^verbatim>\<open>opt.Some\<close>, read from a stored record. (The handlers read it only after their miss
  test, so never from \<^verbatim>\<open>null\<close>.)
\<close>

fun dot_Some :: "'v jsval \<Rightarrow> 'v jsval" where
  "dot_Some (Obj v) = Undefined"
| "dot_Some opt = Undefined"

subsection \<open>Exceptions\<close>

text \<open>
  \<^verbatim>\<open>idPayloadValid\<close> throws the value \<^verbatim>\<open>Err({InvalidPayload: ...})\<close>. Every handler that calls
  it does so inside \<^verbatim>\<open>try\<close>, and its \<^verbatim>\<open>catch (error)\<close> returns
  \<^verbatim>\<open>Err({Error: `Error occured ${error.message}`})\<close>. The thrown value is a plain object
  without a \<^verbatim>\<open>message\<close> property, which the template renders as \<^verbatim>\<open>undefined\<close>. A
  \<^verbatim>\<open>TypeError\<close> carries the engine's message. A handler that has caught an exception
  returns normally: what it had inserted before the throw stays stored.
\<close>

datatype thrown = ThrownErr Message | TypeError string

fun message :: "thrown \<Rightarrow> string" where
  "message (ThrownErr m) = ''undefined''"
| "message (TypeError te) = te"

definition idPayloadValid :: "string \<Rightarrow> thrown + unit" where
  "idPayloadValid i =
     (if i = [] \<or> trim i = []
      then Inl (ThrownErr (InvalidPayload ''Please provide a valid ID as text.''))
      else Inr ())"

definition caught :: "thrown \<Rightarrow> Message" where
  "caught e = Error (''Error occured '' @ message e)"

text \<open>Reading or writing a property of \<open>x\<close>: possible when \<open>x\<close> is a record.\<close>

fun access :: "string \<Rightarrow> 'v jsval \<Rightarrow> thrown + 'v" where
  "access te (Obj v) = Inr v"
| "access te x = Inl (TypeError te)"

subsection \<open>Handlers\<close>

text \<open>
  The generated identifier (\<^verbatim>\<open>uuidv4()\<close>), the caller (\<^verbatim>\<open>ic.caller()\<close>) and the date
  (\<^verbatim>\<open>getCurrentDate()\<close>) are inputs of the handlers that read them.
\<close>

definition createResearcher ::
  "state \<Rightarrow> Principal \<Rightarrow> string \<Rightarrow> researcherPayload \<Rightarrow> state \<times> (Message + Researcher)" where
  "createResearcher s caller uuid payload =
     (let name = rp_name payload; address = rp_address payload;
          email = rp_email payload; phone = rp_phone payload
      in if name = [] \<or> length (trim name) < 2
         then (s, Inl (InvalidPayload ''Name must be at least 2 characters long.''))
         else if address = [] \<or> length (trim address) < 5
         then (s, Inl (InvalidPayload ''Address must be at least 5 characters long.''))
         else if email = [] \<or> \<not> emailRegex_test email
         then (s, Inl (InvalidPayload ''Invalid email format.''))
         else if phone = [] \<or> \<not> phoneRegex_test phone
         then (s, Inl (InvalidPayload ''Phone number must be 10-15 digits.''))
         else (case find (\<lambda>r. r_email r = email \<or> r_phone r = phone) (values_of (researchers s)) of
                 Some duplicateResearcher \<Rightarrow>
                   (s, Inl (InvalidPayload ''Researcher with this email or phone already exists.''))
               | None \<Rightarrow>
                   (let researcher =
                      \<lparr>r_id = uuid, r_name = trim name, r_address = trim address,
                       r_email = toLowerCase (trim email), r_phone = strip_non_digits phone,
                       r_owner = caller, r_reputation_score = 0, r_total_points = 0,
                       r_badges = [], r_contributions = [], r_achievements = []\<rparr>
                    in (s\<lparr>researchers := insert_store (researchers s) uuid researcher\<rparr>,
                        Inr researcher))))"

text \<open>
  \<^verbatim>\<open>return Ok(researcherOpt.Some)\<close>: for a stored researcher the handler hands
  \<^verbatim>\<open>Ok(undefined)\<close> to the library.
\<close>

definition getResearcherById :: "state \<Rightarrow> string \<Rightarrow> Message + Researcher jsval" where
  "getResearcherById s researcherId =
     (case idPayloadValid researcherId of
        Inl e \<Rightarrow> Inl (caught e)
      | Inr _ \<Rightarrow>
          (let researcherOpt = get_or_null (researchers s) researcherId
           in if falsy researcherOpt
              then Inl (NotFound (''Researcher with id='' @ researcherId @ '' not found.''))
              else Inr (dot_Some researcherOpt)))"

definition createProposal ::
  "state \<Rightarrow> string \<Rightarrow> string \<Rightarrow> CreateProposalPayload \<Rightarrow> state \<times> (Message + ResearchProposal)" where
  "createProposal s uuid today payload =
     (let researcherId = cp_researcherId payload; title = cp_title payload;
          description = cp_description payload; methodology = cp_methodology payload;
          funding_target = cp_funding_target payload
      in case idPayloadValid researcherId of
           Inl e \<Rightarrow> (s, Inl (caught e))
         | Inr _ \<Rightarrow>
             if title = [] \<or> description = [] \<or> methodology = [] \<or> funding_target \<le> 0
             then (s, Inl (InvalidPayload
                     ''All fields are required, and funding target must be > 0.''))
             else (let researcherOpt = get_or_null (researchers s) researcherId
                   in if falsy researcherOpt
                      then (s, Inl (NotFound
                              (''Researcher with id='' @ researcherId @ '' not found.'')))
                      else (let proposal =
                                  \<lparr>p_id = uuid, p_researcherId = researcherId, p_title = title,
                                   p_description = description, p_methodology = methodology,
                                   p_milestones = [], p_funding_target = funding_target,
                                   p_current_funding = 0, p_stage = ''draft'', p_reviews = [],
                                   p_timeline = today\<rparr>
                            in (s\<lparr>proposals := insert_store (proposals s) uuid proposal\<rparr>,
                                Inr proposal))))"

definition getProposalById :: "state \<Rightarrow> string \<Rightarrow> Message + ResearchProposal jsval" where
  "getProposalById s proposalId =
     (case idPayloadValid proposalId of
        Inl e \<Rightarrow> Inl (caught e)
      | Inr _ \<Rightarrow>
          (let proposalOpt = get_or_null (proposals s) proposalId
           in if falsy proposalOpt
              then Inl (NotFound (''Proposal with id='' @ proposalId @ '' not found.''))
              else Inr (dot_Some proposalOpt)))"

definition getProposalsByResearcherId :: "state \<Rightarrow> string \<Rightarrow> Message + ResearchProposal list" where
  "getProposalsByResearcherId s researcherId =
     (case idPayloadValid researcherId of
        Inl e \<Rightarrow> Inl (caught e)
      | Inr _ \<Rightarrow>
          (let proposalsByResearcher =
                 filter (\<lambda>proposal. p_researcherId proposal = researcherId)
                   (values_of (proposals s))
           in if length proposalsByResearcher = 0
              then Inl (NotFound
                     (''No proposals found for researcher with id='' @ researcherId @ ''.''))
              else Inr proposalsByResearcher))"

text \<open>
  \<^verbatim>\<open>reviews.insert(reviewId, review)\<close> runs before \<^verbatim>\<open>proposal.reviews.push(reviewId)\<close> throws.
\<close>

definition submitReview ::
  "state \<Rightarrow> string \<Rightarrow> Principal \<Rightarrow> string \<Rightarrow> SubmitReviewPayload \<Rightarrow>
   state \<times> (Message + Review)" where
  "submitReview s te caller reviewId payload =
     (let proposal_id = sr_proposal_id payload; score = sr_score payload;
          comments = sr_comments payload; stake_amount = sr_stake_amount payload
      in case idPayloadValid proposal_id of
           Inl e \<Rightarrow> (s, Inl (caught e))
         | Inr _ \<Rightarrow>
             (let proposalOpt = get_or_null (proposals s) proposal_id
              in if falsy proposalOpt
                 then (s, Inl (NotFound (''Proposal with id='' @ proposal_id @ '' not found.'')))
                 else if score < 1 \<or> score > 10 \<or> stake_amount < 100
                 then (s, Inl (InvalidPayload ''Invalid score or insufficient stake amount.''))
                 else (let review =
                             \<lparr>rv_id = reviewId, rv_reviewer = caller, rv_score = score,
                              rv_comments = comments, rv_stake_amount = stake_amount,
                              rv_verified = False\<rparr>;
                           s1 = s\<lparr>reviews := insert_store (reviews s) reviewId review\<rparr>
                       in case access te (dot_Some proposalOpt) of
                            Inl e \<Rightarrow> (s1, Inl (caught e))
                          | Inr proposal \<Rightarrow>
                              (let proposal1 =
                                     proposal\<lparr>p_reviews := p_reviews proposal @ [reviewId]\<rparr>
                               in (s1\<lparr>proposals :=
                                         insert_store (proposals s1) proposal_id proposal1\<rparr>,
                                   Inr review)))))"

text \<open>
  \<^verbatim>\<open>const proposal = proposalOpt.Some\<close> and the test of the amount come before
  \<^verbatim>\<open>proposal.current_funding += funding_amount\<close> throws.
\<close>

definition fundProposal ::
  "state \<Rightarrow> string \<Rightarrow> FundProposalPayload \<Rightarrow> state \<times> (Message + ResearchProposal)" where
  "fundProposal s te payload =
     (let proposal_id = fp_proposal_id payload; funding_amount = fp_funding_amount payload
      in case idPayloadValid proposal_id of
           Inl e \<Rightarrow> (s, Inl (caught e))
         | Inr _ \<Rightarrow>
             (let proposalOpt = get_or_null (proposals s) proposal_id
              in if falsy proposalOpt
                 then (s, Inl (NotFound (''Proposal with id='' @ proposal_id @ '' not found.'')))
                 else if funding_amount < 100
                 then (s, Inl (InvalidPayload ''Minimum funding amount is 100 units.''))
                 else (case access te (dot_Some proposalOpt) of
                         Inl e \<Rightarrow> (s, Inl (caught e))
                       | Inr proposal \<Rightarrow>
                           (let proposal1 =
                                  proposal\<lparr>p_current_funding :=
                                             p_current_funding proposal + funding_amount\<rparr>;
                                proposal2 =
                                  (if p_current_funding proposal1 \<ge> p_funding_target proposal1
                                   then proposal1\<lparr>p_stage := ''funding''\<rparr> else proposal1)
                            in (s\<lparr>proposals :=
                                     insert_store (proposals s) proposal_id proposal2\<rparr>,
                                Inr proposal2)))))"

text \<open>
  \<^verbatim>\<open>milestones.insert(milestoneId, milestone)\<close> runs before
  \<^verbatim>\<open>proposal.milestones.push(milestoneId)\<close> throws.
\<close>

definition createMilestone ::
  "state \<Rightarrow> string \<Rightarrow> string \<Rightarrow> CreateMilestonePayload \<Rightarrow> state \<times> (Message + Milestone)" where
  "createMilestone s te milestoneId payload =
     (let proposal_id = cm_proposal_id payload; description = cm_description payload;
          required_funding = cm_required_funding payload; deadline = cm_deadline payload
      in case idPayloadValid proposal_id of
           Inl e \<Rightarrow> (s, Inl (caught e))
         | Inr _ \<Rightarrow>
             (let proposalOpt = get_or_null (proposals s) proposal_id
              in if falsy proposalOpt
                 then (s, Inl (NotFound (''Proposal with id='' @ proposal_id @ '' not found.'')))
                 else (let milestone =
                             \<lparr>m_id = milestoneId, m_description = description,
                              m_required_funding = required_funding, m_deadline = deadline,
                              m_status = ''pending'', m_proofs = []\<rparr>;
                           s1 = s\<lparr>milestones := insert_store (milestones s) milestoneId milestone\<rparr>
                       in case access te (dot_Some proposalOpt) of
                            Inl e \<Rightarrow> (s1, Inl (caught e))
                          | Inr proposal \<Rightarrow>
                              (let proposal1 =
                                     proposal\<lparr>p_milestones := p_milestones proposal @ [milestoneId]\<rparr>
                               in (s1\<lparr>proposals :=
                                         insert_store (proposals s1) proposal_id proposal1\<rparr>,
                                   Inr milestone)))))"

text \<open>
  \<^verbatim>\<open>const milestone = milestoneOpt.Some\<close>; then \<^verbatim>\<open>milestone.status !== "pending"\<close> throws.
\<close>

definition verifyMilestone ::
  "state \<Rightarrow> string \<Rightarrow> VerifyMilestonePayload \<Rightarrow> state \<times> (Message + Milestone)" where
  "verifyMilestone s te payload =
     (let proposal_id = vm_proposal_id payload; milestone_id = vm_milestone_id payload
      in case idPayloadValid milestone_id of
           Inl e \<Rightarrow> (s, Inl (caught e))
         | Inr _ \<Rightarrow>
             (let proposalOpt = get_or_null (proposals s) proposal_id;
                  milestoneOpt = get_or_null (milestones s) milestone_id
              in if falsy proposalOpt \<or> falsy milestoneOpt
                 then (s, Inl (NotFound ''Proposal or Milestone not found.''))
                 else (case access te (dot_Some milestoneOpt) of
                         Inl e \<Rightarrow> (s, Inl (caught e))
                       | Inr milestone \<Rightarrow>
                           if m_status milestone \<noteq> ''pending''
                           then (s, Inl (InvalidPayload ''Milestone is not in a pending state.''))
                           else (let milestone1 = milestone\<lparr>m_status := ''completed''\<rparr>
                                 in (s\<lparr>milestones :=
                                          insert_store (milestones s) milestone_id milestone1\<rparr>,
                                     Inr milestone1)))))"

text \<open>
  \<^verbatim>\<open>proofs.insert(proofId, proof)\<close> runs before \<^verbatim>\<open>milestone.proofs.push(proofId)\<close> throws.
\<close>

definition submitProof ::
  "state \<Rightarrow> string \<Rightarrow> string \<Rightarrow> SubmitProofPayload \<Rightarrow>
   state \<times> (Message + ProofOfReproduction)" where
  "submitProof s te proofId payload =
     (let milestone_id = sp_milestone_id payload;
          methodology_hash = sp_methodology_hash payload;
          results_hash = sp_results_hash payload
      in case idPayloadValid milestone_id of
           Inl e \<Rightarrow> (s, Inl (caught e))
         | Inr _ \<Rightarrow>
             (let milestoneOpt = get_or_null (milestones s) milestone_id
              in if falsy milestoneOpt
                 then (s, Inl (NotFound
                         (''Milestone with id='' @ milestone_id @ '' not found.'')))
                 else (let proof =
                             \<lparr>pf_id = proofId, pf_methodology_hash = methodology_hash,
                              pf_results_hash = results_hash, pf_status = ''pending''\<rparr>;
                           s1 = s\<lparr>proofs := insert_store (proofs s) proofId proof\<rparr>
                       in case access te (dot_Some milestoneOpt) of
                            Inl e \<Rightarrow> (s1, Inl (caught e))
                          | Inr milestone \<Rightarrow>
                              (let milestone1 =
                                     milestone\<lparr>m_proofs := m_proofs milestone @ [proofId]\<rparr>
                               in (s1\<lparr>milestones :=
                                         insert_store (milestones s1) milestone_id milestone1\<rparr>,
                                   Inr proof)))))"

section \<open>The canister without the ID check (second canister of index.ts)\<close>

text \<open>
  The second canister has the same records, stores and handlers, and imports the store
  from \<^verbatim>\<open>azle\<close>. Its handlers test the result of \<^verbatim>\<open>get\<close> for a miss with
  \<^verbatim>\<open>"None" in opt\<close> and read the record as \<^verbatim>\<open>opt.Some\<close>: \<^verbatim>\<open>get\<close> returns an option, which
  is \<open>get\<close> as it stands. The handlers do not call \<^verbatim>\<open>idPayloadValid\<close> and are not wrapped in
  \<^verbatim>\<open>try\<close>. \<^verbatim>\<open>createResearcher\<close> is the same function in both canisters.
\<close>

definition getResearcherById_v2 :: "state \<Rightarrow> string \<Rightarrow> Message + Researcher" where
  "getResearcherById_v2 s researcherId =
     (case get (researchers s) researcherId of
        None \<Rightarrow> Inl (NotFound (''Researcher with id='' @ researcherId @ '' not found.''))
      | Some r \<Rightarrow> Inr r)"

definition createProposal_v2 ::
  "state \<Rightarrow> string \<Rightarrow> string \<Rightarrow> CreateProposalPayload \<Rightarrow> state \<times> (Message + ResearchProposal)" where
  "createProposal_v2 s uuid created payload =
     (let researcherId = cp_researcherId payload; title = cp_title payload;
          description = cp_description payload; methodology = cp_methodology payload;
          funding_target = cp_funding_target payload
      in if title = [] \<or> description = [] \<or> methodology = [] \<or> funding_target \<le> 0
         then (s, Inl (InvalidPayload
                 ''All fields are required, and funding target must be > 0.''))
         else (case get (researchers s) researcherId of
                 None \<Rightarrow>
                   (s, Inl (NotFound (''Researcher with id='' @ researcherId @ '' not found.'')))
               | Some r \<Rightarrow>
                   (let proposal =
                      \<lparr>p_id = uuid, p_researcherId = researcherId, p_title = title,
                       p_description = description, p_methodology = methodology,
                       p_milestones = [], p_funding_target = funding_target,
                       p_current_funding = 0, p_stage = ''draft'', p_reviews = [],
                       p_timeline = created\<rparr>
                    in (s\<lparr>proposals := insert_store (proposals s) uuid proposal\<rparr>,
                        Inr proposal))))"

definition submitReview_v2 ::
  "state \<Rightarrow> Principal \<Rightarrow> string \<Rightarrow> SubmitReviewPayload \<Rightarrow> state \<times> (Message + Review)" where
  "submitReview_v2 s caller reviewId payload =
     (let proposal_id = sr_proposal_id payload; score = sr_score payload;
          comments = sr_comments payload; stake_amount = sr_stake_amount payload
      in case get (proposals s) proposal_id of
           None \<Rightarrow> (s, Inl (NotFound (''Proposal with id='' @ proposal_id @ '' not found.'')))
         | Some proposal \<Rightarrow>
             if score < 1 \<or> score > 10 \<or> stake_amount < 100
             then (s, Inl (InvalidPayload ''Invalid score or insufficient stake amount.''))
             else (let review =
                         \<lparr>rv_id = reviewId, rv_reviewer = caller, rv_score = score,
                          rv_comments = comments, rv_stake_amount = stake_amount,
                          rv_verified = False\<rparr>;
                       s1 = s\<lparr>reviews := insert_store (reviews s) reviewId review\<rparr>;
                       proposal1 = proposal\<lparr>p_reviews := p_reviews proposal @ [reviewId]\<rparr>
                   in (s1\<lparr>proposals := insert_store (proposals s1) proposal_id proposal1\<rparr>,
                       Inr review)))"

text \<open>
  \<^verbatim>\<open>proposal.current_funding += funding_amount\<close> is an addition of BigInts and does not wrap.
  \<^verbatim>\<open>proposals.insert\<close> has to encode the sum as a \<^verbatim>\<open>nat64\<close>; when the sum is \<open>2 ^ 64\<close> or more
  the encoding fails, and as nothing catches the failure the call traps: it stores nothing
  and returns nothing (\<open>None\<close>).
\<close>

definition is_nat64 :: "nat \<Rightarrow> bool" where
  "is_nat64 n = (n < 2 ^ 64)"

definition fundProposal_v2 ::
  "state \<Rightarrow> FundProposalPayload \<Rightarrow> state \<times> (Message + ResearchProposal) option" where
  "fundProposal_v2 s payload =
     (let proposal_id = fp_proposal_id payload; funding_amount = fp_funding_amount payload
      in case get (proposals s) proposal_id of
           None \<Rightarrow>
             (s, Some (Inl (NotFound (''Proposal with id='' @ proposal_id @ '' not found.''))))
         | Some proposal \<Rightarrow>
             if funding_amount < 100
             then (s, Some (Inl (InvalidPayload ''Minimum funding amount is 100 units.'')))
             else (let proposal1 =
                         proposal\<lparr>p_current_funding := p_current_funding proposal + funding_amount\<rparr>;
                       proposal2 =
                         (if p_current_funding proposal1 \<ge> p_funding_target proposal1
                          then proposal1\<lparr>p_stage := ''funding''\<rparr> else proposal1)
                   in if is_nat64 (p_current_funding proposal2)
                      then (s\<lparr>proposals := insert_store (proposals s) proposal_id proposal2\<rparr>,
                            Some (Inr proposal2))
                      else (s, None)))"

definition createMilestone_v2 ::
  "state \<Rightarrow> string \<Rightarrow> CreateMilestonePayload \<Rightarrow> state \<times> (Message + Milestone)" where
  "createMilestone_v2 s milestoneId payload =
     (let proposal_id = cm_proposal_id payload; description = cm_description payload;
          required_funding = cm_required_funding payload; deadline = cm_deadline payload
      in case get (proposals s) proposal_id of
           None \<Rightarrow> (s, Inl (NotFound (''Proposal with id='' @ proposal_id @ '' not found.'')))
         | Some proposal \<Rightarrow>
             (let milestone =
                   \<lparr>m_id = milestoneId, m_description = description,
                    m_required_funding = required_funding, m_deadline = deadline,
                    m_status = ''pending'', m_proofs = []\<rparr>;
                  s1 = s\<lparr>milestones := insert_store (milestones s) milestoneId milestone\<rparr>;
                  proposal1 = proposal\<lparr>p_milestones := p_milestones proposal @ [milestoneId]\<rparr>
              in (s1\<lparr>proposals := insert_store (proposals s1) proposal_id proposal1\<rparr>,
                  Inr milestone)))"

definition verifyMilestone_v2 ::
  "state \<Rightarrow> VerifyMilestonePayload \<Rightarrow> state \<times> (Message + Milestone)" where
  "verifyMilestone_v2 s payload =
     (let proposal_id = vm_proposal_id payload; milestone_id = vm_milestone_id payload
      in case (get (proposals s) proposal_id, get (milestones s) milestone_id) of
           (Some proposal, Some milestone) \<Rightarrow>
             if m_status milestone \<noteq> ''pending''
             then (s, Inl (InvalidPayload ''Milestone is not in a pending state.''))
             else (let milestone1 = milestone\<lparr>m_status := ''completed''\<rparr>
                   in (s\<lparr>milestones := insert_store (milestones s) milestone_id milestone1\<rparr>,
                       Inr milestone1))
         | _ \<Rightarrow> (s, Inl (NotFound ''Proposal or Milestone not found.'')))"

definition submitProof_v2 ::
  "state \<Rightarrow> string \<Rightarrow> SubmitProofPayload \<Rightarrow> state \<times> (Message + ProofOfReproduction)" where
  "submitProof_v2 s proofId payload =
     (let milestone_id = sp_milestone_id payload;
          methodology_hash = sp_methodology_hash payload;
          results_hash = sp_results_hash payload
      in case get (milestones s) milestone_id of
           None \<Rightarrow>
             (s, Inl (NotFound (''Milestone with id='' @ milestone_id @ '' not found.'')))
         | Some milestone \<Rightarrow>
             (let proof =
                   \<lparr>pf_id = proofId, pf_methodology_hash = methodology_hash,
                    pf_results_hash = results_hash, pf_status = ''pending''\<rparr>;
                  s1 = s\<lparr>proofs := insert_store (proofs s) proofId proof\<rparr>;
                  milestone1 = milestone\<lparr>m_proofs := m_proofs milestone @ [proofId]\<rparr>
              in (s1\<lparr>milestones := insert_store (milestones s1) milestone_id milestone1\<rparr>,
                  Inr proof)))"

section \<open>Calls and reachable states of the two canisters\<close>

text \<open>
  One update call, together with what it reads from its environment: the caller, the
  generated identifier, the date, and, for the handlers of the first canister that can
  throw one, the text of the engine's \<^verbatim>\<open>TypeError\<close> message. Nothing is assumed about the
  identifiers. \<open>step\<close> is the first canister and \<open>step_v2\<close> the second.
\<close>

datatype call =
    CreateResearcher Principal string researcherPayload
  | CreateProposal string string CreateProposalPayload
  | SubmitReview string Principal string SubmitReviewPayload
  | FundProposal string FundProposalPayload
  | CreateMilestone string string CreateMilestonePayload
  | VerifyMilestone string VerifyMilestonePayload
  | SubmitProof string string SubmitProofPayload

fun step :: "state \<Rightarrow> call \<Rightarrow> state" where
  "step s (CreateResearcher caller uuid payload) = fst (createResearcher s caller uuid payload)"
| "step s (CreateProposal uuid today payload) = fst (createProposal s uuid today payload)"
| "step s (SubmitReview te caller uuid payload) = fst (submitReview s te caller uuid payload)"
| "step s (FundProposal te payload) = fst (fundProposal s te payload)"
| "step s (CreateMilestone te uuid payload) = fst (createMilestone s te uuid payload)"
| "step s (VerifyMilestone te payload) = fst (verifyMilestone s te payload)"
| "step s (SubmitProof te uuid payload) = fst (submitProof s te uuid payload)"

fun step_v2 :: "state \<Rightarrow> call \<Rightarrow> state" where
  "step_v2 s (CreateResearcher caller uuid payload) = fst (createResearcher s caller uuid payload)"
| "step_v2 s (CreateProposal uuid created payload) = fst (createProposal_v2 s uuid created payload)"
| "step_v2 s (SubmitReview te caller uuid payload) = fst (submitReview_v2 s caller uuid payload)"
| "step_v2 s (FundProposal te payload) = fst (fundProposal_v2 s payload)"
| "step_v2 s (CreateMilestone te uuid payload) = fst (createMilestone_v2 s uuid payload)"
| "step_v2 s (VerifyMilestone te payload) = fst (verifyMilestone_v2 s payload)"
| "step_v2 s (SubmitProof te uuid payload) = fst (submitProof_v2 s uuid payload)"

inductive reachable :: "state \<Rightarrow> bool" where
  reachable_init: "reachable init_state"
| reachable_step: "reachable s \<Longrightarrow> reachable (step s c)"

inductive reachable_v2 :: "state \<Rightarrow> bool" where
  reachable_v2_init: "reachable_v2 init_state"
| reachable_v2_step: "reachable_v2 s \<Longrightarrow> reachable_v2 (step_v2 s c)"

text \<open>
  Every milestone, review and proof ID held by a stored proposal or milestone names a
  stored record.
\<close>

definition referential_integrity :: "state \<Rightarrow> bool" where
  "referential_integrity s \<longleftrightarrow>
     (\<forall>pid p. get (proposals s) pid = Some p \<longrightarrow>
        (\<forall>mid\<in>set (p_milestones p). get (milestones s) mid \<noteq> None) \<and>
        (\<forall>rid\<in>set (p_reviews p). get (reviews s) rid \<noteq> None)) \<and>
     (\<forall>mid m. get (milestones s) mid = Some m \<longrightarrow>
        (\<forall>fid\<in>set (m_proofs m). get (proofs s) fid \<noteq> None))"

definition nothing_verified :: "state \<Rightarrow> bool" where
  "nothing_verified s \<longleftrightarrow>
     (\<forall>rid r. get (reviews s) rid = Some r \<longrightarrow> \<not> rv_verified r) \<and>
     (\<forall>fid f. get (proofs s) fid = Some f \<longrightarrow> pf_status f = ''pending'')"

text \<open>
  What the first canister leaves of its parents: no stored proposal is ever funded or
  linked to a milestone or review, and no stored milestone is ever completed or linked to a
  proof.
\<close>

definition parents_untouched :: "state \<Rightarrow> bool" where
  "parents_untouched s \<longleftrightarrow>
     (\<forall>pid p. get (proposals s) pid = Some p \<longrightarrow>
        p_current_funding p = 0 \<and> p_stage p = ''draft'' \<and> p_milestones p = [] \<and>
        p_reviews p = []) \<and>
     (\<forall>mid m. get (milestones s) mid = Some m \<longrightarrow>
        m_status m = ''pending'' \<and> m_proofs m = [])"

section \<open>The points-tracking canister (reputation and reward system)\<close>

text \<open>
  The third source file declares a researcher profile keyed by the caller's principal, a
  badge catalog, and handlers \<^verbatim>\<open>init\<close>, \<^verbatim>\<open>createProposal\<close> and \<^verbatim>\<open>submitReview\<close> that
  track points. Its \<^verbatim>\<open>Review\<close> is the existing record with \<^verbatim>\<open>points_earned\<close> added; its
  proposal is the object that \<^verbatim>\<open>createProposal\<close> builds.
\<close>

record Researcher_pts =
  principal :: Principal
  reputation_score :: nat64
  total_points :: nat64
  badges :: "string list"
  contributions :: "string list"
  achievements :: "string list"

record Badge =
  badge_id :: string
  badge_name :: string
  badge_description :: string
  points_threshold :: nat64

record ContributorPoints =
  ctr_principal :: Principal
  ctr_points_earned :: nat64

record ResearchProposal_pts =
  pp_id :: string
  pp_researcher :: Principal
  pp_title :: string
  pp_description :: string
  pp_methodology :: string
  pp_milestones :: "string list"
  pp_funding_target :: nat64
  pp_current_funding :: nat64
  pp_stage :: string
  pp_reviews :: "string list"
  pp_timeline :: string
  pp_contributors_points :: "ContributorPoints list"

record Review_pts = Review +
  points_earned :: nat64

record state_pts =
  Researchers :: "Researcher_pts store"
  Badges :: "Badge store"
  Proposals :: "ResearchProposal_pts store"
  Reviews :: "Review_pts store"

definition empty_pts :: state_pts where
  "empty_pts = \<lparr>Researchers = [], Badges = [], Proposals = [], Reviews = []\<rparr>"

text \<open>The constants of \<^verbatim>\<open>POINTS\<close>.\<close>

definition REVIEW_BASE :: nat64 where "REVIEW_BASE = 10"
definition REVIEW_QUALITY_MULTIPLIER :: nat64 where "REVIEW_QUALITY_MULTIPLIER = 2"
definition FUNDING_BASE :: nat64 where "FUNDING_BASE = 1"
definition MILESTONE_COMPLETION :: nat64 where "MILESTONE_COMPLETION = 50"
definition PROOF_VERIFICATION :: nat64 where "PROOF_VERIFICATION = 30"
definition PROPOSAL_CREATION :: nat64 where "PROPOSAL_CREATION = 20"

definition DEFAULT_BADGES :: "Badge list" where
  "DEFAULT_BADGES =
     [\<lparr>badge_id = ''research_starter'', badge_name = ''Research Starter'',
       badge_description = ''Created first research proposal'', points_threshold = 20\<rparr>,
      \<lparr>badge_id = ''funding_champion'', badge_name = ''Funding Champion'',
       badge_description = ''Contributed significant funding to research'',
       points_threshold = 500\<rparr>,
      \<lparr>badge_id = ''review_master'', badge_name = ''Review Master'',
       badge_description = ''Provided high-quality reviews'', points_threshold = 200\<rparr>]"

definition init :: "state_pts \<Rightarrow> state_pts \<times> (Message + Badge list)" where
  "init s =
     (s\<lparr>Badges := foldl (\<lambda>st badge. insert_store st (badge_id badge) badge) (Badges s)
                      DEFAULT_BADGES\<rparr>,
      Inr DEFAULT_BADGES)"

text \<open>\<^verbatim>\<open>researcherOpt.Some || { principal: caller, ... }\<close>\<close>

definition profile_or_default :: "state_pts \<Rightarrow> Principal \<Rightarrow> Researcher_pts" where
  "profile_or_default s caller =
     (case get (Researchers s) caller of
        Some researcher \<Rightarrow> researcher
      | None \<Rightarrow>
          \<lparr>principal = caller, reputation_score = 0, total_points = 0, badges = [],
           contributions = [], achievements = []\<rparr>)"

definition createProposal_pts ::
  "state_pts \<Rightarrow> Principal \<Rightarrow> string \<Rightarrow> string \<Rightarrow> CreateProposalPayload \<Rightarrow>
   state_pts \<times> (Message + ResearchProposal_pts)" where
  "createProposal_pts s caller uuid created payload =
     (let title = cp_title payload; description = cp_description payload;
          methodology = cp_methodology payload; funding_target = cp_funding_target payload
      in if title = [] \<or> description = [] \<or> methodology = [] \<or> funding_target \<le> 0
         then (s, Inl (InvalidPayload
                 ''All fields are required, and funding target must be > 0.''))
         else (let researcher = profile_or_default s caller;
                   researcher1 = researcher\<lparr>total_points := total_points researcher + PROPOSAL_CREATION\<rparr>;
                   researcher2 = researcher1\<lparr>contributions := contributions researcher1 @ [uuid]\<rparr>;
                   researcher3 =
                     (if ''research_starter'' \<notin> set (badges researcher2)
                      then researcher2\<lparr>badges := badges researcher2 @ [''research_starter'']\<rparr>
                      else researcher2);
                   s1 = s\<lparr>Researchers := insert_store (Researchers s) caller researcher3\<rparr>;
                   proposal =
                     \<lparr>pp_id = uuid, pp_researcher = caller, pp_title = title,
                      pp_description = description, pp_methodology = methodology,
                      pp_milestones = [], pp_funding_target = funding_target,
                      pp_current_funding = 0, pp_stage = ''draft'', pp_reviews = [],
                      pp_timeline = created, pp_contributors_points = []\<rparr>
               in (s1\<lparr>Proposals := insert_store (Proposals s1) uuid proposal\<rparr>, Inr proposal)))"

definition submitReview_pts ::
  "state_pts \<Rightarrow> Principal \<Rightarrow> string \<Rightarrow> SubmitReviewPayload \<Rightarrow>
   state_pts \<times> (Message + Review_pts)" where
  "submitReview_pts s caller reviewId payload =
     (let proposal_id = sr_proposal_id payload; score = sr_score payload;
          comments = sr_comments payload; stake_amount = sr_stake_amount payload
      in case get (Proposals s) proposal_id of
           None \<Rightarrow> (s, Inl (NotFound (''Proposal with id='' @ proposal_id @ '' not found.'')))
         | Some proposal \<Rightarrow>
             if score < 1 \<or> score > 10 \<or> stake_amount < 100
             then (s, Inl (InvalidPayload ''Invalid score or insufficient stake amount.''))
             else (let points = REVIEW_BASE * score * REVIEW_QUALITY_MULTIPLIER;
                       review =
                         \<lparr>rv_id = reviewId, rv_reviewer = caller, rv_score = score,
                          rv_comments = comments, rv_stake_amount = stake_amount,
                          rv_verified = False, points_earned = points\<rparr>;
                       s1 = s\<lparr>Reviews := insert_store (Reviews s) reviewId review\<rparr>;
                       researcher = profile_or_default s1 caller;
                       researcher1 = researcher\<lparr>total_points := total_points researcher + points\<rparr>;
                       researcher2 = researcher1\<lparr>contributions := contributions researcher1 @ [reviewId]\<rparr>;
                       researcher3 =
                         (case get (Badges s1) ''review_master'' of
                            Some reviewMasterBadge \<Rightarrow>
                              if total_points researcher2 \<ge> points_threshold reviewMasterBadge
                                 \<and> ''review_master'' \<notin> set (badges researcher2)
                              then researcher2\<lparr>badges := badges researcher2 @ [''review_master'']\<rparr>
                              else researcher2
                          | None \<Rightarrow> researcher2);
                       s2 = s1\<lparr>Researchers := insert_store (Researchers s1) caller researcher3\<rparr>;
                       proposal1 = proposal\<lparr>pp_reviews := pp_reviews proposal @ [reviewId]\<rparr>;
                       proposal2 = proposal1\<lparr>pp_contributors_points :=
                                     pp_contributors_points proposal1 @
                                       [\<lparr>ctr_principal = caller, ctr_points_earned = points\<rparr>]\<rparr>
                   in (s2\<lparr>Proposals := insert_store (Proposals s2) proposal_id proposal2\<rparr>,
                       Inr review)))"

definition getResearcherProfile :: "state_pts \<Rightarrow> Principal \<Rightarrow> Message + Researcher_pts" where
  "getResearcherProfile s p =
     (case get (Researchers s) p of
        None \<Rightarrow> Inl (NotFound ''Researcher profile not found.'')
      | Some researcher \<Rightarrow> Inr researcher)"

datatype call_pts =
    Init
  | CreateProposal_pts Principal string string CreateProposalPayload
  | SubmitReview_pts Principal string SubmitReviewPayload

fun step_pts :: "state_pts \<Rightarrow> call_pts \<Rightarrow> state_pts" where
  "step_pts s Init = fst (init s)"
| "step_pts s (CreateProposal_pts caller uuid created payload) =
     fst (createProposal_pts s caller uuid created payload)"
| "step_pts s (SubmitReview_pts caller uuid payload) = fst (submitReview_pts s caller uuid payload)"

inductive reachable_pts :: "state_pts \<Rightarrow> bool" where
  reachable_pts_init: "reachable_pts empty_pts"
| reachable_pts_step: "reachable_pts s \<Longrightarrow> reachable_pts (step_pts s c)"

text \<open>
  A held catalog badge is backed by the points, and the stored \<^verbatim>\<open>review_master\<close> entry is
  the catalog's.
\<close>

definition badges_backed :: "state_pts \<Rightarrow> bool" where
  "badges_backed s \<longleftrightarrow>
     (\<forall>pr r. get (Researchers s) pr = Some r \<longrightarrow>
        (\<forall>b\<in>set DEFAULT_BADGES. badge_id b \<in> set (badges r) \<longrightarrow>
           points_threshold b \<le> total_points r)) \<and>
     (\<forall>b. get (Badges s) ''review_master'' = Some b \<longrightarrow> points_threshold b = 200)"

definition nothing_verified_pts :: "state_pts \<Rightarrow> bool" where
  "nothing_verified_pts s \<longleftrightarrow> (\<forall>rid r. get (Reviews s) rid = Some r \<longrightarrow> \<not> rv_verified r)"

section \<open>Runs and example states\<close>

text \<open>
  A sequence of \<^verbatim>\<open>fundProposal\<close> calls of the second canister on one proposal, with the
  result of each call.
\<close>

fun fundAll ::
  "state \<Rightarrow> string \<Rightarrow> nat64 list \<Rightarrow> state \<times> (Message + ResearchProposal) option list" where
  "fundAll s pid [] = (s, [])"
| "fundAll s pid (a # as) =
     (case fundProposal_v2 s \<lparr>fp_proposal_id = pid, fp_funding_amount = a\<rparr> of
        (s1, r) \<Rightarrow> (case fundAll s1 pid as of (s2, rs) \<Rightarrow> (s2, r # rs)))"

text \<open>
  Registrations: a first one with a mixed-case email, a second one with the same email and
  another phone, and one whose phone has separators.
\<close>

definition ex_jane :: researcherPayload where
  "ex_jane =
     \<lparr>rp_name = ''Jane Doe'', rp_address = ''12 Main St'', rp_email = ''Jane@X.org'',
      rp_phone = ''1234567890''\<rparr>"

definition ex_jane_again :: researcherPayload where
  "ex_jane_again = ex_jane\<lparr>rp_phone := ''0987654321''\<rparr>"

definition ex_jane_dashes :: researcherPayload where
  "ex_jane_dashes = ex_jane\<lparr>rp_phone := ''123-456-7890''\<rparr>"

definition ex_registered :: state where
  "ex_registered = fst (createResearcher init_state ''alice'' ''r1'' ex_jane)"

text \<open>
  A run: Jane registers, creates a proposal with target 1000 and adds a milestone to it;
  then a proof is submitted for the milestone and the proposal is reviewed. \<open>ex_state\<close> and
  \<open>ex_reached\<close> are what the first canister makes of the run, \<open>ex_state_v2\<close> and
  \<open>ex_reached_v2\<close> what the second makes of it. \<open>ex_proposal\<close> and \<open>ex_milestone\<close> are the
  records as \<^verbatim>\<open>createProposal\<close> and \<^verbatim>\<open>createMilestone\<close> build them.
\<close>

definition ex_text :: string where
  "ex_text = ''cannot read property of undefined''"

definition ex_run :: "call list" where
  "ex_run =
     [CreateResearcher ''alice'' ''r1'' ex_jane,
      CreateProposal ''p1'' ''2024-01-01''
        \<lparr>cp_researcherId = ''r1'', cp_title = ''T'', cp_description = ''D'',
         cp_methodology = ''M'', cp_funding_target = 1000\<rparr>,
      CreateMilestone ex_text ''m1''
        \<lparr>cm_proposal_id = ''p1'', cm_description = ''first'', cm_required_funding = 10,
         cm_deadline = ''2025-01-01''\<rparr>]"

definition ex_run_more :: "call list" where
  "ex_run_more =
     [SubmitProof ex_text ''f1''
        \<lparr>sp_milestone_id = ''m1'', sp_methodology_hash = ''h1'', sp_results_hash = ''h2''\<rparr>,
      SubmitReview ex_text ''bob'' ''v1''
        \<lparr>sr_proposal_id = ''p1'', sr_score = 9, sr_comments = ''good'', sr_stake_amount = 100\<rparr>]"

definition ex_state :: state where
  "ex_state = foldl step init_state ex_run"

definition ex_reached :: state where
  "ex_reached = foldl step ex_state ex_run_more"

definition ex_state_v2 :: state where
  "ex_state_v2 = foldl step_v2 init_state ex_run"

definition ex_reached_v2 :: state where
  "ex_reached_v2 = foldl step_v2 ex_state_v2 ex_run_more"

definition ex_proposal :: ResearchProposal where
  "ex_proposal =
     \<lparr>p_id = ''p1'', p_researcherId = ''r1'', p_title = ''T'', p_description = ''D'',
      p_methodology = ''M'', p_milestones = [], p_funding_target = 1000,
      p_current_funding = 0, p_stage = ''draft'', p_reviews = [], p_timeline = ''2024-01-01''\<rparr>"

definition ex_milestone :: Milestone where
  "ex_milestone =
     \<lparr>m_id = ''m1'', m_description = ''first'', m_required_funding = 10,
      m_deadline = ''2025-01-01'', m_status = ''pending'', m_proofs = []\<rparr>"

definition ex_researcher :: Researcher where
  "ex_researcher =
     \<lparr>r_id = ''r1'', r_name = ''Jane Doe'', r_address = ''12 Main St'',
      r_email = ''jane@x.org'', r_phone = ''1234567890'', r_owner = ''alice'',
      r_reputation_score = 0, r_total_points = 0, r_badges = [], r_contributions = [],
      r_achievements = []\<rparr>"

text \<open>
  A run of the points-tracking canister: the catalog is seeded and alice creates a
  proposal; then bob reviews it with score 1.
\<close>

definition ex_run_pts :: "call_pts list" where
  "ex_run_pts =
     [Init,
      CreateProposal_pts ''alice'' ''p1'' ''2024-01-01''
        \<lparr>cp_researcherId = ''r1'', cp_title = ''T'', cp_description = ''D'',
         cp_methodology = ''M'', cp_funding_target = 1000\<rparr>]"

definition ex_seeded_pts :: state_pts where
  "ex_seeded_pts = foldl step_pts empty_pts ex_run_pts"

definition ex_reached_pts :: state_pts where
  "ex_reached_pts =
     step_pts ex_seeded_pts
       (SubmitReview_pts ''bob'' ''v1''
          \<lparr>sr_proposal_id = ''p1'', sr_score = 1, sr_comments = ''weak'',
           sr_stake_amount = 100\<rparr>)"

section \<open>Properties\<close>

subsection \<open>The email pattern\<close>

text \<open>
  The test computed by \<open>emailRegex_test\<close> is membership in the language of the regular
  expression: a non-empty run of class characters, \<^verbatim>\<open>@\<close>, a non-empty run, a dot, a
  non-empty run.
\<close>

lemma not_ws_at_dot: "not_ws_at CHR ''.''"
  by (simp add: not_ws_at_def is_ws_def)

lemma emailRegex_test_iff:
  "emailRegex_test e \<longleftrightarrow>
     (\<exists>a b c. e = a @ ''@'' @ b @ ''.'' @ c \<and> a \<noteq> [] \<and> b \<noteq> [] \<and> c \<noteq> [] \<and>
        list_all not_ws_at (a @ b @ c))"
proof
  assume t: "emailRegex_test e"
  define a where "a = takeWhile not_ws_at e"
  from t obtain d where dw: "dropWhile not_ws_at e = CHR ''@'' # d"
    and cls: "list_all not_ws_at d" and dot: "CHR ''.'' \<in> set (butlast (tl d))"
    and a: "a \<noteq> []"
    by (auto simp: emailRegex_test_def a_def split: list.splits)
  have e: "e = a @ CHR ''@'' # d"
    using takeWhile_dropWhile_id [of not_ws_at e] by (simp add: a_def dw)
  from dot obtain u v where uv: "butlast (tl d) = u @ CHR ''.'' # v"
    by (auto dest: split_list)
  then have ne: "tl d \<noteq> []" by auto
  then have dne: "d \<noteq> []" by auto
  have tl: "tl d = u @ CHR ''.'' # v @ [last (tl d)]"
    using append_butlast_last_id [OF ne] uv by simp
  have d: "d = (hd d # u) @ CHR ''.'' # (v @ [last (tl d)])"
    using dne tl by (cases d) simp_all
  have acls: "list_all not_ws_at a"
    by (simp add: a_def list_all_iff) (meson set_takeWhileD)
  have bc: "list_all not_ws_at ((hd d # u) @ (v @ [last (tl d)]))"
    using cls by (subst (asm) d) (simp add: list_all_iff)
  show "\<exists>a b c. e = a @ ''@'' @ b @ ''.'' @ c \<and> a \<noteq> [] \<and> b \<noteq> [] \<and> c \<noteq> [] \<and>
        list_all not_ws_at (a @ b @ c)"
    apply (rule exI [of _ a], rule exI [of _ "hd d # u"], rule exI [of _ "v @ [last (tl d)]"])
    using e d a acls bc by simp
next
  assume "\<exists>a b c. e = a @ ''@'' @ b @ ''.'' @ c \<and> a \<noteq> [] \<and> b \<noteq> [] \<and> c \<noteq> [] \<and>
        list_all not_ws_at (a @ b @ c)"
  then obtain a b c where e: "e = a @ CHR ''@'' # (b @ CHR ''.'' # c)"
    and ne: "a \<noteq> []" "b \<noteq> []" "c \<noteq> []"
    and cls: "list_all not_ws_at a" "list_all not_ws_at b" "list_all not_ws_at c"
    by auto
  have at: "\<not> not_ws_at CHR ''@''" by (simp add: not_ws_at_def)
  have tw: "takeWhile not_ws_at e = a"
    using cls(1) at by (simp add: e list_all_iff takeWhile_append2)
  have dw: "dropWhile not_ws_at e = CHR ''@'' # (b @ CHR ''.'' # c)"
    using cls(1) at by (simp add: e list_all_iff dropWhile_append2)
  obtain x b' where b: "b = x # b'" using ne(2) by (cases b) auto
  have "butlast (tl (b @ CHR ''.'' # c)) = b' @ CHR ''.'' # butlast c"
    using ne(3) by (simp add: b butlast_append)
  then have dot: "CHR ''.'' \<in> set (butlast (tl (b @ CHR ''.'' # c)))" by simp
  show "emailRegex_test e"
    using ne(1) cls(2,3) dot not_ws_at_dot
    by (simp add: emailRegex_test_def tw dw del: butlast.simps)
qed

subsection \<open>Store and example states\<close>

lemma get_insert_store:
  "get (insert_store st k v) k' = (if k' = k then Some v else get st k')"
  by (simp add: get_def insert_store_def update_conv')

lemmas string_eval =
  trim_def is_ws_def is_digit_def emailRegex_test_def not_ws_at_def phoneRegex_test_def
  strip_non_digits_def toLowerCase_def lower_char_def char_of_def bit_0

lemma falsy_get_or_null: "falsy (get_or_null st k) \<longleftrightarrow> get st k = None"
  by (simp add: falsy_def get_or_null_def split: option.splits)

lemma access_dot_Some: "access te (dot_Some opt) = Inl (TypeError te)"
  by (cases opt) simp_all

lemma caught_TypeError: "caught (TypeError te) = Error (''Error occured '' @ te)"
  by (simp add: caught_def)

lemma valid_id_p1: "idPayloadValid ''p1'' = Inr ()"
  by (simp add: idPayloadValid_def trim_def is_ws_def)

lemma valid_id_m1: "idPayloadValid ''m1'' = Inr ()"
  by (simp add: idPayloadValid_def trim_def is_ws_def)

lemma reachable_foldl: "reachable s \<Longrightarrow> reachable (foldl step s cs)"
  by (induction cs arbitrary: s) (simp_all add: reachable_step)

lemma reachable_v2_foldl: "reachable_v2 s \<Longrightarrow> reachable_v2 (foldl step_v2 s cs)"
  by (induction cs arbitrary: s) (simp_all add: reachable_v2_step)

lemmas handler_eval =
  createResearcher_def createProposal_def createMilestone_def submitProof_def submitReview_def
  createProposal_v2_def createMilestone_v2_def submitProof_v2_def submitReview_v2_def
  Let_def idPayloadValid_def access_dot_Some caught_def falsy_def get_or_null_def values_of_def
  get_def insert_store_def

lemma ex_state_value:
  "researchers ex_state = [(''r1'', ex_researcher)]"
  "proposals ex_state = [(''p1'', ex_proposal)]"
  "milestones ex_state = [(''m1'', ex_milestone)]"
  "reviews ex_state = []"
  "proofs ex_state = []"
  by (simp_all add: ex_state_def ex_run_def ex_jane_def ex_proposal_def ex_milestone_def
        ex_researcher_def init_state_def handler_eval string_eval)

lemma ex_reached_value:
  "researchers ex_reached = [(''r1'', ex_researcher)]"
  "proposals ex_reached = [(''p1'', ex_proposal)]"
  "milestones ex_reached = [(''m1'', ex_milestone)]"
  "reviews ex_reached =
     [(''v1'', \<lparr>rv_id = ''v1'', rv_reviewer = ''bob'', rv_score = 9, rv_comments = ''good'',
        rv_stake_amount = 100, rv_verified = False\<rparr>)]"
  "proofs ex_reached =
     [(''f1'', \<lparr>pf_id = ''f1'', pf_methodology_hash = ''h1'', pf_results_hash = ''h2'',
        pf_status = ''pending''\<rparr>)]"
  by (simp_all add: ex_reached_def ex_run_more_def ex_state_value ex_proposal_def
        ex_milestone_def handler_eval trim_def is_ws_def)

lemma ex_state_v2_value:
  "researchers ex_state_v2 = [(''r1'', ex_researcher)]"
  "proposals ex_state_v2 = [(''p1'', ex_proposal\<lparr>p_milestones := [''m1'']\<rparr>)]"
  "milestones ex_state_v2 = [(''m1'', ex_milestone)]"
  "reviews ex_state_v2 = []"
  "proofs ex_state_v2 = []"
  by (simp_all add: ex_state_v2_def ex_run_def ex_jane_def ex_proposal_def ex_milestone_def
        ex_researcher_def init_state_def handler_eval string_eval)

lemma ex_reached_v2_value:
  "researchers ex_reached_v2 = [(''r1'', ex_researcher)]"
  "proposals ex_reached_v2 =
     [(''p1'', ex_proposal\<lparr>p_milestones := [''m1''], p_reviews := [''v1'']\<rparr>)]"
  "milestones ex_reached_v2 = [(''m1'', ex_milestone\<lparr>m_proofs := [''f1'']\<rparr>)]"
  "reviews ex_reached_v2 =
     [(''v1'', \<lparr>rv_id = ''v1'', rv_reviewer = ''bob'', rv_score = 9, rv_comments = ''good'',
        rv_stake_amount = 100, rv_verified = False\<rparr>)]"
  "proofs ex_reached_v2 =
     [(''f1'', \<lparr>pf_id = ''f1'', pf_methodology_hash = ''h1'', pf_results_hash = ''h2'',
        pf_status = ''pending''\<rparr>)]"
  by (simp_all add: ex_reached_v2_def ex_run_more_def ex_state_v2_value ex_proposal_def
        ex_milestone_def handler_eval)

lemma reachable_ex_state: "reachable ex_state"
  unfolding ex_state_def by (rule reachable_foldl) (rule reachable_init)

lemma reachable_ex_reached: "reachable ex_reached"
  unfolding ex_reached_def by (rule reachable_foldl) (rule reachable_ex_state)

lemma reachable_ex_state_v2: "reachable_v2 ex_state_v2"
  unfolding ex_state_v2_def by (rule reachable_v2_foldl) (rule reachable_v2_init)

lemma reachable_ex_reached_v2: "reachable_v2 ex_reached_v2"
  unfolding ex_reached_v2_def by (rule reachable_v2_foldl) (rule reachable_ex_state_v2)

subsection \<open>The first canister on a stored parent\<close>

text \<open>
  With an ID that passes the ID check and names a stored record, each of these handlers
  runs into the \<^verbatim>\<open>TypeError\<close> and answers with the \<^verbatim>\<open>Error\<close> variant.
\<close>

lemma fundProposal_stored:
  assumes "idPayloadValid (fp_proposal_id pl) = Inr ()"
    and "get (proposals s) (fp_proposal_id pl) = Some p"
  shows "fundProposal s te pl =
           (s, Inl (if fp_funding_amount pl < 100
                    then InvalidPayload ''Minimum funding amount is 100 units.''
                    else Error (''Error occured '' @ te)))"
  using assms
  by (simp add: fundProposal_def Let_def falsy_get_or_null access_dot_Some caught_def)

lemma verifyMilestone_stored:
  assumes "idPayloadValid (vm_milestone_id pl) = Inr ()"
    and "get (proposals s) (vm_proposal_id pl) = Some p"
    and "get (milestones s) (vm_milestone_id pl) = Some m"
  shows "verifyMilestone s te pl = (s, Inl (Error (''Error occured '' @ te)))"
  using assms
  by (simp add: verifyMilestone_def Let_def falsy_get_or_null access_dot_Some caught_def)

lemma verifyMilestone_missing:
  assumes "idPayloadValid (vm_milestone_id pl) = Inr ()"
    and "get (proposals s) (vm_proposal_id pl) = None \<or>
         get (milestones s) (vm_milestone_id pl) = None"
  shows "verifyMilestone s te pl = (s, Inl (NotFound ''Proposal or Milestone not found.''))"
  using assms
  by (auto simp: verifyMilestone_def Let_def falsy_get_or_null)

lemma submitProof_stored:
  assumes "idPayloadValid (sp_milestone_id pl) = Inr ()"
    and "get (milestones s) (sp_milestone_id pl) = Some m"
  shows "submitProof s te uuid pl =
           (s\<lparr>proofs := insert_store (proofs s) uuid
                 \<lparr>pf_id = uuid, pf_methodology_hash = sp_methodology_hash pl,
                  pf_results_hash = sp_results_hash pl, pf_status = ''pending''\<rparr>\<rparr>,
            Inl (Error (''Error occured '' @ te)))"
  using assms
  by (simp add: submitProof_def Let_def falsy_get_or_null access_dot_Some caught_def)

lemma createMilestone_stored:
  assumes "idPayloadValid (cm_proposal_id pl) = Inr ()"
    and "get (proposals s) (cm_proposal_id pl) = Some p"
  shows "createMilestone s te uuid pl =
           (s\<lparr>milestones := insert_store (milestones s) uuid
                 \<lparr>m_id = uuid, m_description = cm_description pl,
                  m_required_funding = cm_required_funding pl, m_deadline = cm_deadline pl,
                  m_status = ''pending'', m_proofs = []\<rparr>\<rparr>,
            Inl (Error (''Error occured '' @ te)))"
  using assms
  by (simp add: createMilestone_def Let_def falsy_get_or_null access_dot_Some caught_def)

lemma submitReview_stored:
  assumes "idPayloadValid (sr_proposal_id pl) = Inr ()"
    and "get (proposals s) (sr_proposal_id pl) = Some p"
    and "1 \<le> sr_score pl" "sr_score pl \<le> 10" "100 \<le> sr_stake_amount pl"
  shows "submitReview s te caller uuid pl =
           (s\<lparr>reviews := insert_store (reviews s) uuid
                 \<lparr>rv_id = uuid, rv_reviewer = caller, rv_score = sr_score pl,
                  rv_comments = sr_comments pl, rv_stake_amount = sr_stake_amount pl,
                  rv_verified = False\<rparr>\<rparr>,
            Inl (Error (''Error occured '' @ te)))"
  using assms
  by (simp add: submitReview_def Let_def falsy_get_or_null access_dot_Some caught_def)

text \<open>What a call of the first canister does to the stores of proposals and milestones.\<close>

lemma step_proposals:
  "get (proposals (step s c)) pid = Some p' \<Longrightarrow>
   get (proposals s) pid = Some p' \<or>
   (p_current_funding p' = 0 \<and> p_stage p' = ''draft'' \<and> p_milestones p' = [] \<and>
    p_reviews p' = [])"
  by (cases c)
     (auto simp: createResearcher_def createProposal_def submitReview_def fundProposal_def
        createMilestone_def verifyMilestone_def submitProof_def Let_def access_dot_Some
        get_insert_store split: option.splits sum.splits if_splits)

lemma step_milestones:
  "get (milestones (step s c)) mid = Some m' \<Longrightarrow>
   get (milestones s) mid = Some m' \<or> (m_status m' = ''pending'' \<and> m_proofs m' = [])"
  by (cases c)
     (auto simp: createResearcher_def createProposal_def submitReview_def fundProposal_def
        createMilestone_def verifyMilestone_def submitProof_def Let_def access_dot_Some
        get_insert_store split: option.splits sum.splits if_splits)

lemma pu_init: "parents_untouched init_state"
  by (simp add: parents_untouched_def init_state_def get_def)

lemma pu_step: "parents_untouched s \<Longrightarrow> parents_untouched (step s c)"
  unfolding parents_untouched_def
  using step_proposals [of s c] step_milestones [of s c] by blast

lemma pu_reachable: "reachable s \<Longrightarrow> parents_untouched s"
  by (induction rule: reachable.induct) (simp_all add: pu_init pu_step)

subsection \<open>Blank IDs\<close>

lemma trim_Nil_iff: "trim t = [] \<longleftrightarrow> list_all is_ws t"
proof
  assume "trim t = []"
  then have all: "\<forall>c\<in>set (dropWhile is_ws t). is_ws c"
    by (simp add: trim_def dropWhile_eq_Nil_conv)
  have "dropWhile is_ws t = []"
  proof (rule ccontr)
    assume ne: "dropWhile is_ws t \<noteq> []"
    then have "\<not> is_ws (hd (dropWhile is_ws t))" by (rule hd_dropWhile)
    moreover have "hd (dropWhile is_ws t) \<in> set (dropWhile is_ws t)" using ne by simp
    ultimately show False using all by blast
  qed
  then show "list_all is_ws t" by (simp add: dropWhile_eq_Nil_conv list_all_iff)
next
  assume "list_all is_ws t"
  then have d: "dropWhile is_ws t = []" by (simp add: dropWhile_eq_Nil_conv list_all_iff)
  show "trim t = []" unfolding trim_def d by simp
qed

lemma idPayloadValid_blank:
  "list_all is_ws i \<Longrightarrow>
   idPayloadValid i = Inl (ThrownErr (InvalidPayload ''Please provide a valid ID as text.''))"
  by (simp add: idPayloadValid_def trim_Nil_iff)

lemma idPayloadValid_iff: "idPayloadValid i = Inr () \<longleftrightarrow> \<not> list_all is_ws i"
  by (auto simp: idPayloadValid_def trim_Nil_iff)

subsection \<open>Funding\<close>

text \<open>The second canister: one call.\<close>

lemma fundProposal_v2_missing:
  "get (proposals s) (fp_proposal_id pl) = None \<Longrightarrow>
   fundProposal_v2 s pl
     = (s, Some (Inl (NotFound (''Proposal with id='' @ fp_proposal_id pl @ '' not found.''))))"
  by (simp add: fundProposal_v2_def Let_def)

lemma fundProposal_v2_small:
  "get (proposals s) (fp_proposal_id pl) = Some p \<Longrightarrow> fp_funding_amount pl < 100 \<Longrightarrow>
   fundProposal_v2 s pl = (s, Some (Inl (InvalidPayload ''Minimum funding amount is 100 units.'')))"
  by (simp add: fundProposal_v2_def Let_def)

lemma fundProposal_v2_ok:
  "get (proposals s) (fp_proposal_id pl) = Some p \<Longrightarrow> 100 \<le> fp_funding_amount pl \<Longrightarrow>
   p_current_funding p + fp_funding_amount pl < 2 ^ 64 \<Longrightarrow>
   fundProposal_v2 s pl =
     (s\<lparr>proposals := insert_store (proposals s) (fp_proposal_id pl)
          (p\<lparr>p_current_funding := p_current_funding p + fp_funding_amount pl,
             p_stage := (if p_funding_target p \<le> p_current_funding p + fp_funding_amount pl
                         then ''funding'' else p_stage p)\<rparr>)\<rparr>,
      Some (Inr (p\<lparr>p_current_funding := p_current_funding p + fp_funding_amount pl,
             p_stage := (if p_funding_target p \<le> p_current_funding p + fp_funding_amount pl
                         then ''funding'' else p_stage p)\<rparr>)))"
  by (simp add: fundProposal_v2_def Let_def is_nat64_def)

lemma fundProposal_v2_trap:
  "get (proposals s) (fp_proposal_id pl) = Some p \<Longrightarrow> 100 \<le> fp_funding_amount pl \<Longrightarrow>
   2 ^ 64 \<le> p_current_funding p + fp_funding_amount pl \<Longrightarrow>
   fundProposal_v2 s pl = (s, None)"
  by (simp add: fundProposal_v2_def Let_def is_nat64_def)

text \<open>
  The second canister: a sequence of calls with amounts of at least 100 whose sum keeps the
  funding below \<open>2 ^ 64\<close>. Every call returns \<^verbatim>\<open>Ok\<close>, the funding grows by the sum, and the
  stage is \<^verbatim>\<open>"funding"\<close> once the funding has reached the target.
\<close>

lemma fundAll_ok:
  "get (proposals s) pid = Some p \<Longrightarrow> \<forall>a\<in>set as. 100 \<le> a \<Longrightarrow>
   p_current_funding p + sum_list as < 2 ^ 64 \<Longrightarrow>
   get (proposals (fst (fundAll s pid as))) pid =
     Some (p\<lparr>p_current_funding := p_current_funding p + sum_list as,
             p_stage := (if as \<noteq> [] \<and> p_funding_target p \<le> p_current_funding p + sum_list as
                         then ''funding'' else p_stage p)\<rparr>)
   \<and> length (snd (fundAll s pid as)) = length as
   \<and> (\<forall>r\<in>set (snd (fundAll s pid as)). \<exists>p'. r = Some (Inr p'))"
proof (induction as arbitrary: s p)
  case Nil
  then show ?case by simp
next
  case (Cons a as)
  let ?pl = "\<lparr>fp_proposal_id = pid, fp_funding_amount = a\<rparr>"
  let ?p1 = "p\<lparr>p_current_funding := p_current_funding p + a,
               p_stage := (if p_funding_target p \<le> p_current_funding p + a
                           then ''funding'' else p_stage p)\<rparr>"
  let ?s1 = "s\<lparr>proposals := insert_store (proposals s) pid ?p1\<rparr>"
  have a: "100 \<le> a" and as: "\<forall>a\<in>set as. 100 \<le> a" using Cons.prems(2) by simp_all
  have fit: "p_current_funding p + a < 2 ^ 64" using Cons.prems(3) by simp
  have step: "fundProposal_v2 s ?pl = (?s1, Some (Inr ?p1))"
    using fundProposal_v2_ok [of s ?pl p] Cons.prems(1) a fit by simp
  have g1: "get (proposals ?s1) pid = Some ?p1" by (simp add: get_insert_store)
  have fit1: "p_current_funding ?p1 + sum_list as < 2 ^ 64"
    using Cons.prems(3) by (simp add: add.assoc)
  note ih = Cons.IH [OF g1 as fit1]
  show ?case
    using ih by (auto simp: step split: prod.splits)
qed

lemma fundAll_keeps_funding:
  "get (proposals s) pid = Some p \<Longrightarrow> p_stage p = ''funding'' \<Longrightarrow>
   \<exists>p'. get (proposals (fst (fundAll s pid as))) pid = Some p' \<and>
        p_stage p' = ''funding'' \<and> p_current_funding p \<le> p_current_funding p'"
proof (induction as arbitrary: s p)
  case Nil
  then show ?case by simp
next
  case (Cons a as)
  let ?pl = "\<lparr>fp_proposal_id = pid, fp_funding_amount = a\<rparr>"
  obtain s1 r where step: "fundProposal_v2 s ?pl = (s1, r)" by fastforce
  have "\<exists>p1. get (proposals s1) pid = Some p1 \<and> p_stage p1 = ''funding'' \<and>
             p_current_funding p \<le> p_current_funding p1"
    using Cons.prems step
    by (auto simp: fundProposal_v2_def Let_def get_insert_store split: if_splits)
  then obtain p1 where p1: "get (proposals s1) pid = Some p1" "p_stage p1 = ''funding''"
     "p_current_funding p \<le> p_current_funding p1" by blast
  from Cons.IH [OF p1(1,2)] p1(3) show ?case
    by (auto simp: step split: prod.splits)
qed

text \<open>
  The second canister: no call takes a proposal out of stage \<^verbatim>\<open>"funding"\<close> or lowers its
  funding, as long as the identifier generated for a new proposal is not the ID of a
  stored one.
\<close>

lemma funding_kept_step_v2:
  assumes "get (proposals s) pid = Some p"
    and "\<forall>uuid created pl. c = CreateProposal uuid created pl \<longrightarrow> get (proposals s) uuid = None"
  shows "\<exists>p'. get (proposals (step_v2 s c)) pid = Some p' \<and>
           p_current_funding p \<le> p_current_funding p' \<and>
           p_funding_target p' = p_funding_target p \<and>
           (p_stage p = ''funding'' \<longrightarrow> p_stage p' = ''funding'')"
  using assms
  by (cases c)
     (auto simp: createResearcher_def createProposal_v2_def submitReview_v2_def
        fundProposal_v2_def createMilestone_v2_def verifyMilestone_v2_def submitProof_v2_def
        Let_def get_insert_store split: option.splits if_splits)

lemma createProposal_v2_fresh:
  "createProposal_v2 s0 uuid created cp = (s, Inr p) \<Longrightarrow>
   get (proposals s) uuid = Some p \<and> p_current_funding p = 0 \<and> p_stage p = ''draft'' \<and>
   0 < p_funding_target p"
  by (auto simp: createProposal_v2_def Let_def get_insert_store
           split: option.splits if_splits)

lemma fundProposal_v2_sequences:
  "(\<forall>p as. get (proposals s) pid = Some p \<and> (\<forall>a\<in>set as. 100 \<le> a) \<and>
        p_current_funding p + sum_list as < 2 ^ 64 \<longrightarrow>
            length (snd (fundAll s pid as)) = length as
          \<and> (\<forall>r\<in>set (snd (fundAll s pid as)). \<exists>p'. r = Some (Inr p'))
          \<and> (\<exists>p'. get (proposals (fst (fundAll s pid as))) pid = Some p'
                \<and> p_current_funding p' = p_current_funding p + sum_list as
                \<and> p_funding_target p' = p_funding_target p
                \<and> p_stage p' = (if as \<noteq> [] \<and> p_funding_target p \<le> p_current_funding p + sum_list as
                                then ''funding'' else p_stage p)
                \<and> (p_current_funding p = 0 \<and> p_stage p = ''draft'' \<and> 0 < p_funding_target p \<longrightarrow>
                      p_current_funding p' = sum_list as
                    \<and> (p_stage p' = ''funding'' \<longleftrightarrow> p_funding_target p \<le> sum_list as)
                    \<and> (p_stage p' = ''draft'' \<longleftrightarrow> sum_list as < p_funding_target p))))
   \<and> (\<forall>p as. get (proposals s) pid = Some p \<and> p_stage p = ''funding'' \<longrightarrow>
          (\<exists>p'. get (proposals (fst (fundAll s pid as))) pid = Some p'
              \<and> p_stage p' = ''funding'' \<and> p_current_funding p \<le> p_current_funding p'))
   \<and> (\<forall>p a. get (proposals s) pid = Some p \<and> a < 100 \<longrightarrow>
          fundProposal_v2 s \<lparr>fp_proposal_id = pid, fp_funding_amount = a\<rparr>
            = (s, Some (Inl (InvalidPayload ''Minimum funding amount is 100 units.''))))
   \<and> (\<forall>a. get (proposals s) pid = None \<longrightarrow>
          fundProposal_v2 s \<lparr>fp_proposal_id = pid, fp_funding_amount = a\<rparr>
            = (s, Some (Inl (NotFound (''Proposal with id='' @ pid @ '' not found.'')))))
   \<and> (\<forall>p a. get (proposals s) pid = Some p \<and> 100 \<le> a \<and> 2 ^ 64 \<le> p_current_funding p + a \<longrightarrow>
          fundProposal_v2 s \<lparr>fp_proposal_id = pid, fp_funding_amount = a\<rparr> = (s, None))"
proof -
  have A: "length (snd (fundAll s pid as)) = length as
          \<and> (\<forall>r\<in>set (snd (fundAll s pid as)). \<exists>p'. r = Some (Inr p'))
          \<and> (\<exists>p'. get (proposals (fst (fundAll s pid as))) pid = Some p'
                \<and> p_current_funding p' = p_current_funding p + sum_list as
                \<and> p_funding_target p' = p_funding_target p
                \<and> p_stage p' = (if as \<noteq> [] \<and> p_funding_target p \<le> p_current_funding p + sum_list as
                                then ''funding'' else p_stage p)
                \<and> (p_current_funding p = 0 \<and> p_stage p = ''draft'' \<and> 0 < p_funding_target p \<longrightarrow>
                      p_current_funding p' = sum_list as
                    \<and> (p_stage p' = ''funding'' \<longleftrightarrow> p_funding_target p \<le> sum_list as)
                    \<and> (p_stage p' = ''draft'' \<longleftrightarrow> sum_list as < p_funding_target p)))"
    if g: "get (proposals s) pid = Some p" and as: "\<forall>a\<in>set as. 100 \<le> a"
      and fit: "p_current_funding p + sum_list as < 2 ^ 64" for p as
  proof -
    note ok = fundAll_ok [OF g as fit]
    have nonempty: "as \<noteq> []" if "0 < p_funding_target p" "p_funding_target p \<le> sum_list as"
      using that by auto
    show ?thesis
      using ok nonempty by auto
  qed
  show ?thesis
    apply (intro conjI allI impI)
    subgoal for p as using A [of p as] by blast
    subgoal for p as using A [of p as] by blast
    subgoal for p as using A [of p as] by blast
    subgoal for p as using fundAll_keeps_funding [of s pid p as] by blast
    subgoal for p a
      using fundProposal_v2_small [of s "\<lparr>fp_proposal_id = pid, fp_funding_amount = a\<rparr>" p] by simp
    subgoal for a
      using fundProposal_v2_missing [of s "\<lparr>fp_proposal_id = pid, fp_funding_amount = a\<rparr>"] by simp
    subgoal for p a
      using fundProposal_v2_trap [of s "\<lparr>fp_proposal_id = pid, fp_funding_amount = a\<rparr>" p] by simp
    done
qed

text \<open>
  C1 at its failing inputs. In the first canister, \<^verbatim>\<open>fundProposal\<close> with an amount of at
  least 100 on a stored proposal (named by an ID that passes the ID check) never funds it:
  the handler reads \<^verbatim>\<open>proposalOpt.Some\<close> of the stored record, which is \<^verbatim>\<open>undefined\<close>,
  \<^verbatim>\<open>proposal.current_funding += funding_amount\<close> throws, and the call returns the \<^verbatim>\<open>Error\<close>
  variant with the state unchanged. So in every reachable state of the first canister
  every stored proposal has \<^verbatim>\<open>current_funding\<close> 0 and stage \<^verbatim>\<open>"draft"\<close>, whatever was
  funded. An empty or whitespace-only ID, which names no stored proposal of a reachable
  state with non-blank identifiers, gives \<^verbatim>\<open>Error\<close> and not \<^verbatim>\<open>NotFound\<close>. What the claim
  says of amounts below 100 and of other IDs that name no stored proposal holds.
\<close>

theorem fundProposal_never_funds:
  assumes "idPayloadValid pid = Inr ()"
  shows "(\<forall>p a. get (proposals s) pid = Some p \<and> 100 \<le> a \<longrightarrow>
            fundProposal s te \<lparr>fp_proposal_id = pid, fp_funding_amount = a\<rparr>
              = (s, Inl (Error (''Error occured '' @ te))))
       \<and> (\<forall>p a. get (proposals s) pid = Some p \<and> a < 100 \<longrightarrow>
            fundProposal s te \<lparr>fp_proposal_id = pid, fp_funding_amount = a\<rparr>
              = (s, Inl (InvalidPayload ''Minimum funding amount is 100 units.'')))
       \<and> (\<forall>a. get (proposals s) pid = None \<longrightarrow>
            fundProposal s te \<lparr>fp_proposal_id = pid, fp_funding_amount = a\<rparr>
              = (s, Inl (NotFound (''Proposal with id='' @ pid @ '' not found.''))))
       \<and> (\<forall>i a. list_all is_ws i \<longrightarrow>
            fundProposal s te \<lparr>fp_proposal_id = i, fp_funding_amount = a\<rparr>
              = (s, Inl (Error ''Error occured undefined'')))
       \<and> (\<forall>s'. reachable s' \<longrightarrow>
            (\<forall>q p'. get (proposals s') q = Some p' \<longrightarrow>
               p_current_funding p' = 0 \<and> p_stage p' = ''draft''))"
proof (intro conjI allI impI)
  fix p :: ResearchProposal and a :: nat
  assume "get (proposals s) pid = Some p \<and> 100 \<le> a"
  then show "fundProposal s te \<lparr>fp_proposal_id = pid, fp_funding_amount = a\<rparr>
              = (s, Inl (Error (''Error occured '' @ te)))"
    using fundProposal_stored [of "\<lparr>fp_proposal_id = pid, fp_funding_amount = a\<rparr>" s p te] assms
    by simp
next
  fix p :: ResearchProposal and a :: nat
  assume "get (proposals s) pid = Some p \<and> a < 100"
  then show "fundProposal s te \<lparr>fp_proposal_id = pid, fp_funding_amount = a\<rparr>
              = (s, Inl (InvalidPayload ''Minimum funding amount is 100 units.''))"
    using fundProposal_stored [of "\<lparr>fp_proposal_id = pid, fp_funding_amount = a\<rparr>" s p te] assms
    by simp
next
  fix a :: nat assume "get (proposals s) pid = None"
  then show "fundProposal s te \<lparr>fp_proposal_id = pid, fp_funding_amount = a\<rparr>
              = (s, Inl (NotFound (''Proposal with id='' @ pid @ '' not found.'')))"
    using assms by (simp add: fundProposal_def Let_def falsy_get_or_null)
next
  fix i and a :: nat assume "list_all is_ws i"
  then show "fundProposal s te \<lparr>fp_proposal_id = i, fp_funding_amount = a\<rparr>
              = (s, Inl (Error ''Error occured undefined''))"
    by (simp add: fundProposal_def Let_def idPayloadValid_blank caught_def)
next
  fix s' q p' assume "reachable s'" and g: "get (proposals s') q = Some p'"
  then have "parents_untouched s'" by (simp add: pu_reachable)
  then show "p_current_funding p' = 0" and "p_stage p' = ''draft''"
    using g unfolding parents_untouched_def by blast+
qed

theorem fundProposal_never_funds_witness:
  "reachable ex_state
   \<and> idPayloadValid ''p1'' = Inr ()
   \<and> get (proposals ex_state) ''p1'' = Some ex_proposal
   \<and> fundProposal ex_state ex_text \<lparr>fp_proposal_id = ''p1'', fp_funding_amount = 600\<rparr>
       = (ex_state, Inl (Error (''Error occured '' @ ex_text)))
   \<and> map_option p_current_funding
        (get (proposals (step (step ex_state
           (FundProposal ex_text \<lparr>fp_proposal_id = ''p1'', fp_funding_amount = 600\<rparr>))
           (FundProposal ex_text \<lparr>fp_proposal_id = ''p1'', fp_funding_amount = 500\<rparr>))) ''p1'')
       = Some 0
   \<and> reachable_v2 ex_state_v2
   \<and> map_option p_current_funding
        (get (proposals (fst (fundAll ex_state_v2 ''p1'' [600, 500]))) ''p1'') = Some 1100
   \<and> map_option p_stage
        (get (proposals (fst (fundAll ex_state_v2 ''p1'' [600, 500]))) ''p1'') = Some ''funding''"
proof -
  have g: "get (proposals ex_state) ''p1'' = Some ex_proposal"
    by (simp add: ex_state_value get_def)
  note th = fundProposal_never_funds [OF valid_id_p1, of ex_state ex_text]
  have e: "fundProposal ex_state ex_text \<lparr>fp_proposal_id = ''p1'', fp_funding_amount = 600\<rparr>
       = (ex_state, Inl (Error (''Error occured '' @ ex_text)))"
    using th [THEN conjunct1, rule_format, of ex_proposal 600] g by simp
  let ?s2 = "step (step ex_state
           (FundProposal ex_text \<lparr>fp_proposal_id = ''p1'', fp_funding_amount = 600\<rparr>))
           (FundProposal ex_text \<lparr>fp_proposal_id = ''p1'', fp_funding_amount = 500\<rparr>)"
  have r2: "reachable ?s2"
    by (intro reachable_step reachable_ex_state)
  have e5: "fundProposal ex_state ex_text \<lparr>fp_proposal_id = ''p1'', fp_funding_amount = 500\<rparr>
       = (ex_state, Inl (Error (''Error occured '' @ ex_text)))"
    using th [THEN conjunct1, rule_format, of ex_proposal 500] g by simp
  have s2: "?s2 = ex_state" by (simp add: e e5)
  have g2s: "get (proposals ?s2) ''p1'' = Some ex_proposal"
    unfolding s2 by (rule g)
  have "p_current_funding ex_proposal = 0"
    using th [THEN conjunct2, THEN conjunct2, THEN conjunct2, THEN conjunct2, rule_format,
              OF r2 g2s] by simp
  then have z: "map_option p_current_funding (get (proposals ?s2) ''p1'') = Some 0"
    unfolding g2s by simp
  have g2: "get (proposals ex_state_v2) ''p1'' = Some (ex_proposal\<lparr>p_milestones := [''m1'']\<rparr>)"
    by (simp add: ex_state_v2_value get_def)
  have v2: "map_option p_current_funding
        (get (proposals (fst (fundAll ex_state_v2 ''p1'' [600, 500]))) ''p1'') = Some 1100"
    "map_option p_stage
        (get (proposals (fst (fundAll ex_state_v2 ''p1'' [600, 500]))) ''p1'') = Some ''funding''"
    using fundAll_ok [OF g2, of "[600, 500]"]
    by (simp_all add: ex_proposal_def del: fundAll.simps)
  show ?thesis
    using reachable_ex_state valid_id_p1 g e z reachable_ex_state_v2 v2 by simp
qed

subsection \<open>Milestone verification\<close>

text \<open>The second canister.\<close>

lemma verifyMilestone_v2_missing:
  "get (proposals s) (vm_proposal_id pl) = None \<or> get (milestones s) (vm_milestone_id pl) = None
   \<Longrightarrow> verifyMilestone_v2 s pl = (s, Inl (NotFound ''Proposal or Milestone not found.''))"
  by (auto simp: verifyMilestone_v2_def Let_def split: option.splits)

lemma verifyMilestone_v2_not_pending:
  "get (proposals s) (vm_proposal_id pl) = Some p \<Longrightarrow>
   get (milestones s) (vm_milestone_id pl) = Some m \<Longrightarrow> m_status m \<noteq> ''pending'' \<Longrightarrow>
   verifyMilestone_v2 s pl = (s, Inl (InvalidPayload ''Milestone is not in a pending state.''))"
  by (simp add: verifyMilestone_v2_def Let_def)

lemma verifyMilestone_v2_pending:
  "get (proposals s) (vm_proposal_id pl) = Some p \<Longrightarrow>
   get (milestones s) (vm_milestone_id pl) = Some m \<Longrightarrow> m_status m = ''pending'' \<Longrightarrow>
   verifyMilestone_v2 s pl =
     (s\<lparr>milestones := insert_store (milestones s) (vm_milestone_id pl) (m\<lparr>m_status := ''completed''\<rparr>)\<rparr>,
      Inr (m\<lparr>m_status := ''completed''\<rparr>))"
  by (simp add: verifyMilestone_v2_def Let_def)

lemma verifyMilestone_v2_success_iff:
  "(\<exists>m'. snd (verifyMilestone_v2 s pl) = Inr m') \<longleftrightarrow>
   (\<exists>p m. get (proposals s) (vm_proposal_id pl) = Some p \<and>
          get (milestones s) (vm_milestone_id pl) = Some m \<and> m_status m = ''pending'')"
  by (auto simp: verifyMilestone_v2_def Let_def split: option.splits)

text \<open>
  The second canister does what C2 says: success if and only if both records are stored
  and the milestone is pending, then status \<^verbatim>\<open>"completed"\<close> and \<^verbatim>\<open>InvalidPayload\<close> for a
  repeated call; \<^verbatim>\<open>NotFound\<close> if a record is missing, \<^verbatim>\<open>InvalidPayload\<close> if not pending.
\<close>

lemma verifyMilestone_v2_spec:
  "((\<exists>m'. snd (verifyMilestone_v2 s pl) = Inr m') \<longleftrightarrow>
            (\<exists>p m. get (proposals s) (vm_proposal_id pl) = Some p \<and>
                   get (milestones s) (vm_milestone_id pl) = Some m \<and> m_status m = ''pending''))
       \<and> (\<forall>p m. get (proposals s) (vm_proposal_id pl) = Some p \<and>
                 get (milestones s) (vm_milestone_id pl) = Some m \<and> m_status m = ''pending'' \<longrightarrow>
               snd (verifyMilestone_v2 s pl) = Inr (m\<lparr>m_status := ''completed''\<rparr>)
             \<and> get (milestones (fst (verifyMilestone_v2 s pl))) (vm_milestone_id pl)
                 = Some (m\<lparr>m_status := ''completed''\<rparr>)
             \<and> verifyMilestone_v2 (fst (verifyMilestone_v2 s pl)) pl
                 = (fst (verifyMilestone_v2 s pl),
                    Inl (InvalidPayload ''Milestone is not in a pending state.'')))
       \<and> (get (proposals s) (vm_proposal_id pl) = None \<or>
          get (milestones s) (vm_milestone_id pl) = None \<longrightarrow>
            verifyMilestone_v2 s pl = (s, Inl (NotFound ''Proposal or Milestone not found.'')))
       \<and> (\<forall>p m. get (proposals s) (vm_proposal_id pl) = Some p \<and>
                 get (milestones s) (vm_milestone_id pl) = Some m \<and> m_status m \<noteq> ''pending'' \<longrightarrow>
               verifyMilestone_v2 s pl
                 = (s, Inl (InvalidPayload ''Milestone is not in a pending state.'')))"
proof -
  have twice: "verifyMilestone_v2 (fst (verifyMilestone_v2 s pl)) pl
       = (fst (verifyMilestone_v2 s pl), Inl (InvalidPayload ''Milestone is not in a pending state.''))"
    if "get (proposals s) (vm_proposal_id pl) = Some p"
       "get (milestones s) (vm_milestone_id pl) = Some m" "m_status m = ''pending''" for p m
    by (rule verifyMilestone_v2_not_pending [where p = p and m = "m\<lparr>m_status := ''completed''\<rparr>"])
       (simp_all add: verifyMilestone_v2_pending [OF that] get_insert_store that)
  show ?thesis
    apply (intro conjI allI impI)
       apply (rule verifyMilestone_v2_success_iff)
      apply (auto simp: verifyMilestone_v2_pending get_insert_store twice
                        verifyMilestone_v2_missing verifyMilestone_v2_not_pending)
    done
qed

text \<open>
  C2 at its failing inputs. In the first canister, \<^verbatim>\<open>verifyMilestone\<close> for a stored
  proposal and a stored milestone (named by a milestone ID that passes the ID check) never
  succeeds, pending or not: the handler reads \<^verbatim>\<open>milestoneOpt.Some\<close> of the stored record,
  which is \<^verbatim>\<open>undefined\<close>, \<^verbatim>\<open>milestone.status\<close> throws, and the call returns the \<^verbatim>\<open>Error\<close>
  variant with the state unchanged. The same call repeated returns \<^verbatim>\<open>Error\<close> again, not
  \<^verbatim>\<open>InvalidPayload\<close>, and in every reachable state of the first canister every stored
  milestone is pending. An empty or whitespace-only milestone ID gives \<^verbatim>\<open>Error\<close> and not
  \<^verbatim>\<open>NotFound\<close>. What the claim says of a missing record holds for the other IDs.
\<close>

theorem verifyMilestone_never_succeeds:
  assumes "idPayloadValid (vm_milestone_id pl) = Inr ()"
  shows "(\<forall>p m. get (proposals s) (vm_proposal_id pl) = Some p \<and>
              get (milestones s) (vm_milestone_id pl) = Some m \<longrightarrow>
            verifyMilestone s te pl = (s, Inl (Error (''Error occured '' @ te)))
          \<and> verifyMilestone (fst (verifyMilestone s te pl)) te pl
              = (s, Inl (Error (''Error occured '' @ te))))
       \<and> (get (proposals s) (vm_proposal_id pl) = None \<or>
          get (milestones s) (vm_milestone_id pl) = None \<longrightarrow>
            verifyMilestone s te pl = (s, Inl (NotFound ''Proposal or Milestone not found.'')))
       \<and> (\<forall>i j. list_all is_ws i \<longrightarrow>
            verifyMilestone s te \<lparr>vm_proposal_id = j, vm_milestone_id = i\<rparr>
              = (s, Inl (Error ''Error occured undefined'')))
       \<and> (\<forall>s'. reachable s' \<longrightarrow>
            (\<forall>mid m. get (milestones s') mid = Some m \<longrightarrow> m_status m = ''pending''))"
proof (intro conjI allI impI)
  fix p :: ResearchProposal and m :: Milestone
  assume a: "get (proposals s) (vm_proposal_id pl) = Some p \<and>
              get (milestones s) (vm_milestone_id pl) = Some m"
  then show one: "verifyMilestone s te pl = (s, Inl (Error (''Error occured '' @ te)))"
    using verifyMilestone_stored [OF assms, of s p m te] by simp
  then show "verifyMilestone (fst (verifyMilestone s te pl)) te pl
              = (s, Inl (Error (''Error occured '' @ te)))"
    by simp
next
  assume "get (proposals s) (vm_proposal_id pl) = None \<or>
          get (milestones s) (vm_milestone_id pl) = None"
  then show "verifyMilestone s te pl = (s, Inl (NotFound ''Proposal or Milestone not found.''))"
    by (rule verifyMilestone_missing [OF assms])
next
  fix i j assume "list_all is_ws i"
  then show "verifyMilestone s te \<lparr>vm_proposal_id = j, vm_milestone_id = i\<rparr>
              = (s, Inl (Error ''Error occured undefined''))"
    by (simp add: verifyMilestone_def Let_def idPayloadValid_blank caught_def)
next
  fix s' mid m assume "reachable s'" and g: "get (milestones s') mid = Some m"
  then have "parents_untouched s'" by (simp add: pu_reachable)
  then show "m_status m = ''pending''"
    using g unfolding parents_untouched_def by blast
qed

theorem verifyMilestone_never_succeeds_witness:
  "reachable ex_state
   \<and> idPayloadValid ''m1'' = Inr ()
   \<and> get (proposals ex_state) ''p1'' = Some ex_proposal
   \<and> get (milestones ex_state) ''m1'' = Some ex_milestone
   \<and> m_status ex_milestone = ''pending''
   \<and> verifyMilestone ex_state ex_text \<lparr>vm_proposal_id = ''p1'', vm_milestone_id = ''m1''\<rparr>
       = (ex_state, Inl (Error (''Error occured '' @ ex_text)))
   \<and> reachable_v2 ex_state_v2
   \<and> snd (verifyMilestone_v2 ex_state_v2 \<lparr>vm_proposal_id = ''p1'', vm_milestone_id = ''m1''\<rparr>)
       = Inr (ex_milestone\<lparr>m_status := ''completed''\<rparr>)"
proof -
  have g: "get (proposals ex_state) ''p1'' = Some ex_proposal"
    "get (milestones ex_state) ''m1'' = Some ex_milestone"
    by (simp_all add: ex_state_value get_def)
  have v: "idPayloadValid (vm_milestone_id \<lparr>vm_proposal_id = ''p1'', vm_milestone_id = ''m1''\<rparr>)
             = Inr ()"
    by (simp add: valid_id_m1)
  have e: "verifyMilestone ex_state ex_text \<lparr>vm_proposal_id = ''p1'', vm_milestone_id = ''m1''\<rparr>
       = (ex_state, Inl (Error (''Error occured '' @ ex_text)))"
    using verifyMilestone_never_succeeds [OF v, of ex_state ex_text, THEN conjunct1, rule_format,
            of ex_proposal ex_milestone] g
    by simp
  have v2: "snd (verifyMilestone_v2 ex_state_v2 \<lparr>vm_proposal_id = ''p1'', vm_milestone_id = ''m1''\<rparr>)
       = Inr (ex_milestone\<lparr>m_status := ''completed''\<rparr>)"
    by (simp add: verifyMilestone_v2_def Let_def ex_state_v2_value ex_milestone_def get_def)
  show ?thesis
    using reachable_ex_state valid_id_m1 g e reachable_ex_state_v2 v2
    by (simp add: ex_milestone_def)
qed

subsection \<open>Referential integrity\<close>

lemma ri_init: "referential_integrity init_state"
  by (simp add: referential_integrity_def init_state_def get_def)

lemma ri_createResearcher:
  "referential_integrity s \<Longrightarrow> referential_integrity (fst (createResearcher s caller uuid pl))"
  by (simp add: createResearcher_def Let_def referential_integrity_def split: option.splits)

text \<open>
  The first canister. Where a handler has stored the child and is then stopped by the
  \<^verbatim>\<open>TypeError\<close>, the child stays stored and no parent holds its ID.
\<close>

lemma ri_createProposal:
  "referential_integrity s \<Longrightarrow> referential_integrity (fst (createProposal s uuid today pl))"
  by (auto simp: createProposal_def Let_def referential_integrity_def get_insert_store
           split: option.splits sum.splits if_splits)

lemma ri_submitReview:
  "referential_integrity s \<Longrightarrow> referential_integrity (fst (submitReview s te caller uuid pl))"
  by (auto simp: submitReview_def Let_def referential_integrity_def get_insert_store
             access_dot_Some split: option.splits sum.splits if_splits)

lemma ri_fundProposal:
  "referential_integrity s \<Longrightarrow> referential_integrity (fst (fundProposal s te pl))"
  by (auto simp: fundProposal_def Let_def referential_integrity_def get_insert_store
             access_dot_Some split: option.splits sum.splits if_splits)

lemma ri_createMilestone:
  "referential_integrity s \<Longrightarrow> referential_integrity (fst (createMilestone s te uuid pl))"
  by (auto simp: createMilestone_def Let_def referential_integrity_def get_insert_store
             access_dot_Some split: option.splits sum.splits if_splits)

lemma ri_verifyMilestone:
  "referential_integrity s \<Longrightarrow> referential_integrity (fst (verifyMilestone s te pl))"
  by (auto simp: verifyMilestone_def Let_def referential_integrity_def get_insert_store
             access_dot_Some split: option.splits sum.splits if_splits)

lemma ri_submitProof:
  "referential_integrity s \<Longrightarrow> referential_integrity (fst (submitProof s te uuid pl))"
  by (auto simp: submitProof_def Let_def referential_integrity_def get_insert_store
             access_dot_Some split: option.splits sum.splits if_splits)

lemma ri_step: "referential_integrity s \<Longrightarrow> referential_integrity (step s c)"
  by (cases c)
     (simp_all add: ri_createResearcher ri_createProposal ri_submitReview ri_fundProposal
        ri_createMilestone ri_verifyMilestone ri_submitProof)

lemma ri_reachable: "reachable s \<Longrightarrow> referential_integrity s"
  by (induction rule: reachable.induct) (simp_all add: ri_init ri_step)

text \<open>
  The second canister. Each handler stores the child and appends its ID to the parent in
  the same call; a trapped \<^verbatim>\<open>fundProposal\<close> stores nothing.
\<close>

lemma ri_createProposal_v2:
  "referential_integrity s \<Longrightarrow> referential_integrity (fst (createProposal_v2 s uuid created pl))"
  by (auto simp: createProposal_v2_def Let_def referential_integrity_def get_insert_store
           split: option.splits if_splits)

lemma ri_submitReview_v2:
  "referential_integrity s \<Longrightarrow> referential_integrity (fst (submitReview_v2 s caller uuid pl))"
  by (auto simp: submitReview_v2_def Let_def referential_integrity_def get_insert_store
           split: option.splits if_splits)

lemma ri_fundProposal_v2:
  "referential_integrity s \<Longrightarrow> referential_integrity (fst (fundProposal_v2 s pl))"
  by (auto simp: fundProposal_v2_def Let_def referential_integrity_def get_insert_store
           split: option.splits if_splits)

lemma ri_createMilestone_v2:
  "referential_integrity s \<Longrightarrow> referential_integrity (fst (createMilestone_v2 s uuid pl))"
  by (auto simp: createMilestone_v2_def Let_def referential_integrity_def get_insert_store
           split: option.splits if_splits)

lemma ri_verifyMilestone_v2:
  "referential_integrity s \<Longrightarrow> referential_integrity (fst (verifyMilestone_v2 s pl))"
  by (auto simp: verifyMilestone_v2_def Let_def referential_integrity_def get_insert_store
           split: option.splits if_splits)

lemma ri_submitProof_v2:
  "referential_integrity s \<Longrightarrow> referential_integrity (fst (submitProof_v2 s uuid pl))"
  by (auto simp: submitProof_v2_def Let_def referential_integrity_def get_insert_store
           split: option.splits if_splits)

lemma ri_step_v2: "referential_integrity s \<Longrightarrow> referential_integrity (step_v2 s c)"
  by (cases c)
     (simp_all add: ri_createResearcher ri_createProposal_v2 ri_submitReview_v2
        ri_fundProposal_v2 ri_createMilestone_v2 ri_verifyMilestone_v2 ri_submitProof_v2)

lemma ri_reachable_v2: "reachable_v2 s \<Longrightarrow> referential_integrity s"
  by (induction rule: reachable_v2.induct) (simp_all add: ri_init ri_step_v2)

text \<open>
  C4. Referential integrity holds in the initial state and is preserved by every call of
  either canister from any state in which it holds, whatever the call returns: in the
  second canister each handler inserts the new record in the same call that appends its
  ID to the parent's list; in the first canister the new record is inserted and the call
  then fails before any list is changed. Therefore in every reachable state of either
  canister every milestone ID and review ID of a stored proposal and every proof ID of a
  stored milestone names a stored record.
\<close>

theorem referential_integrity_invariant:
  "referential_integrity init_state
   \<and> (\<forall>s c. referential_integrity s \<longrightarrow> referential_integrity (step s c))
   \<and> (\<forall>s c. referential_integrity s \<longrightarrow> referential_integrity (step_v2 s c))
   \<and> (\<forall>s. reachable s \<or> reachable_v2 s \<longrightarrow>
         (\<forall>pid p. get (proposals s) pid = Some p \<longrightarrow>
            (\<forall>mid\<in>set (p_milestones p). \<exists>m. get (milestones s) mid = Some m) \<and>
            (\<forall>rid\<in>set (p_reviews p). \<exists>r. get (reviews s) rid = Some r)) \<and>
         (\<forall>mid m. get (milestones s) mid = Some m \<longrightarrow>
            (\<forall>fid\<in>set (m_proofs m). \<exists>f. get (proofs s) fid = Some f)))"
proof (intro conjI allI impI)
  show "referential_integrity init_state" by (rule ri_init)
next
  fix s c assume "referential_integrity s"
  then show "referential_integrity (step s c)" by (rule ri_step)
next
  fix s c assume "referential_integrity s"
  then show "referential_integrity (step_v2 s c)" by (rule ri_step_v2)
next
  fix s pid p assume "reachable s \<or> reachable_v2 s" and g: "get (proposals s) pid = Some p"
  then have ri: "referential_integrity s" using ri_reachable ri_reachable_v2 by blast
  show "\<forall>mid\<in>set (p_milestones p). \<exists>m. get (milestones s) mid = Some m"
    using ri g unfolding referential_integrity_def by blast
  show "\<forall>rid\<in>set (p_reviews p). \<exists>r. get (reviews s) rid = Some r"
    using ri g unfolding referential_integrity_def by blast
next
  fix s mid m assume "reachable s \<or> reachable_v2 s" and g: "get (milestones s) mid = Some m"
  then have ri: "referential_integrity s" using ri_reachable ri_reachable_v2 by blast
  show "\<forall>fid\<in>set (m_proofs m). \<exists>f. get (proofs s) fid = Some f"
    using ri g unfolding referential_integrity_def by blast
qed

theorem referential_integrity_invariant_witness:
  "reachable_v2 ex_reached_v2
   \<and> map_option p_milestones (get (proposals ex_reached_v2) ''p1'') = Some [''m1'']
   \<and> map_option p_reviews (get (proposals ex_reached_v2) ''p1'') = Some [''v1'']
   \<and> map_option m_proofs (get (milestones ex_reached_v2) ''m1'') = Some [''f1'']
   \<and> (\<exists>m. get (milestones ex_reached_v2) ''m1'' = Some m)
   \<and> (\<exists>r. get (reviews ex_reached_v2) ''v1'' = Some r)
   \<and> (\<exists>f. get (proofs ex_reached_v2) ''f1'' = Some f)
   \<and> reachable ex_reached
   \<and> map_option p_milestones (get (proposals ex_reached) ''p1'') = Some []
   \<and> map_option p_reviews (get (proposals ex_reached) ''p1'') = Some []
   \<and> map_option m_proofs (get (milestones ex_reached) ''m1'') = Some []
   \<and> (\<exists>r. get (reviews ex_reached) ''v1'' = Some r)
   \<and> (\<exists>f. get (proofs ex_reached) ''f1'' = Some f)"
proof -
  have r: "reachable ex_reached_v2 \<or> reachable_v2 ex_reached_v2"
    by (simp add: reachable_ex_reached_v2)
  note th0 = referential_integrity_invariant [THEN conjunct2, THEN conjunct2, THEN conjunct2,
               THEN spec, THEN mp, OF r]
  note th = th0 [THEN conjunct1, rule_format, THEN conjunct1]
            th0 [THEN conjunct1, rule_format, THEN conjunct2]
            th0 [THEN conjunct2, rule_format]
  have p: "get (proposals ex_reached_v2) ''p1'' = Some (snd (hd (proposals ex_reached_v2)))"
    and m: "get (milestones ex_reached_v2) ''m1'' = Some (snd (hd (milestones ex_reached_v2)))"
    by (simp_all add: ex_reached_v2_value get_def)
  have "\<exists>m. get (milestones ex_reached_v2) ''m1'' = Some m"
    using th(1) [OF p] by (simp add: ex_reached_v2_value ex_proposal_def)
  moreover have "\<exists>r. get (reviews ex_reached_v2) ''v1'' = Some r"
    using th(2) [OF p] by (simp add: ex_reached_v2_value ex_proposal_def)
  moreover have "\<exists>f. get (proofs ex_reached_v2) ''f1'' = Some f"
    using th(3) [OF m] by (simp add: ex_reached_v2_value ex_milestone_def)
  ultimately show ?thesis
    using reachable_ex_reached_v2 reachable_ex_reached
    by (simp add: ex_reached_v2_value ex_reached_value ex_proposal_def ex_milestone_def get_def)
qed

subsection \<open>Milestone status\<close>

text \<open>The second canister.\<close>

lemma status_createResearcher:
  "milestones (fst (createResearcher s caller uuid pl)) = milestones s"
  by (simp add: createResearcher_def Let_def split: option.splits)

lemma status_createProposal_v2:
  "milestones (fst (createProposal_v2 s uuid created pl)) = milestones s"
  by (simp add: createProposal_v2_def Let_def split: option.splits)

lemma status_submitReview_v2:
  "milestones (fst (submitReview_v2 s caller uuid pl)) = milestones s"
  by (simp add: submitReview_v2_def Let_def split: option.splits)

lemma status_fundProposal_v2:
  "milestones (fst (fundProposal_v2 s pl)) = milestones s"
  by (simp add: fundProposal_v2_def Let_def split: option.splits)

lemma status_createMilestone_v2:
  "get (milestones s) mid = Some m \<Longrightarrow>
   \<exists>m'. get (milestones (fst (createMilestone_v2 s uuid pl))) mid = Some m' \<and>
        (m_status m = ''pending'' \<longrightarrow> m_status m' = ''pending'') \<and>
        (get (milestones s) uuid = None \<longrightarrow> m' = m)"
  by (auto simp: createMilestone_v2_def Let_def get_insert_store split: option.splits)

lemma status_submitProof_v2:
  "get (milestones s) mid = Some m \<Longrightarrow>
   \<exists>m'. get (milestones (fst (submitProof_v2 s uuid pl))) mid = Some m' \<and>
        m_status m' = m_status m"
  by (auto simp: submitProof_v2_def Let_def get_insert_store split: option.splits)

lemma status_step_v2:
  assumes "\<forall>te pl. c \<noteq> VerifyMilestone te pl" and "get (milestones s) mid = Some m"
  shows "\<exists>m'. get (milestones (step_v2 s c)) mid = Some m' \<and>
           (m_status m = ''pending'' \<longrightarrow> m_status m' = ''pending'') \<and>
           ((\<forall>te uuid pl. c = CreateMilestone te uuid pl \<longrightarrow> get (milestones s) uuid = None)
              \<longrightarrow> m_status m' = m_status m)"
proof (cases c)
  case (CreateMilestone te uuid pl)
  then show ?thesis using status_createMilestone_v2 [OF assms(2), of uuid pl] by auto
next
  case (SubmitProof te uuid pl)
  then show ?thesis using status_submitProof_v2 [OF assms(2), of uuid pl] by auto
next
  case (VerifyMilestone te pl)
  then show ?thesis using assms(1) by simp
qed (simp_all add: assms(2) status_createResearcher status_createProposal_v2
       status_submitReview_v2 status_fundProposal_v2)

lemma submitProof_v2_ok:
  assumes "get (milestones s) (sp_milestone_id pl) = Some m"
  shows "snd (submitProof_v2 s uuid pl) =
           Inr \<lparr>pf_id = uuid, pf_methodology_hash = sp_methodology_hash pl,
                pf_results_hash = sp_results_hash pl, pf_status = ''pending''\<rparr>"
    and "get (proofs (fst (submitProof_v2 s uuid pl))) uuid =
           Some \<lparr>pf_id = uuid, pf_methodology_hash = sp_methodology_hash pl,
                 pf_results_hash = sp_results_hash pl, pf_status = ''pending''\<rparr>"
    and "get (milestones (fst (submitProof_v2 s uuid pl))) (sp_milestone_id pl) =
           Some (m\<lparr>m_proofs := m_proofs m @ [uuid]\<rparr>)"
  using assms by (simp_all add: submitProof_v2_def Let_def get_insert_store)

text \<open>
  The second canister does what C7 says. If a milestone is pending before a call and
  completed after it, the call is a \<^verbatim>\<open>verifyMilestone\<close> call for that milestone. A call
  other than \<^verbatim>\<open>verifyMilestone\<close> keeps every stored milestone stored and leaves its status
  as it was when the identifier generated for a new milestone is not already a key of the
  milestone store. \<^verbatim>\<open>submitProof\<close> for a stored milestone returns and stores a proof with
  status \<^verbatim>\<open>"pending"\<close>, appends its ID to the milestone's proof list and changes nothing
  else of the milestone.
\<close>

lemma milestone_status_only_by_verify_v2:
  "(\<forall>s c mid m m'. get (milestones s) mid = Some m \<and> m_status m = ''pending'' \<and>
        get (milestones (step_v2 s c)) mid = Some m' \<and> m_status m' = ''completed'' \<longrightarrow>
        (\<exists>te pl. c = VerifyMilestone te pl \<and> vm_milestone_id pl = mid))
   \<and> (\<forall>s c mid m. (\<forall>te pl. c \<noteq> VerifyMilestone te pl) \<and>
        (\<forall>te uuid pl. c = CreateMilestone te uuid pl \<longrightarrow> get (milestones s) uuid = None) \<and>
        get (milestones s) mid = Some m \<longrightarrow>
        (\<exists>m'. get (milestones (step_v2 s c)) mid = Some m' \<and> m_status m' = m_status m))
   \<and> (\<forall>s uuid pl m. get (milestones s) (sp_milestone_id pl) = Some m \<longrightarrow>
          snd (submitProof_v2 s uuid pl) =
            Inr \<lparr>pf_id = uuid, pf_methodology_hash = sp_methodology_hash pl,
                 pf_results_hash = sp_results_hash pl, pf_status = ''pending''\<rparr>
        \<and> get (proofs (fst (submitProof_v2 s uuid pl))) uuid =
            Some \<lparr>pf_id = uuid, pf_methodology_hash = sp_methodology_hash pl,
                  pf_results_hash = sp_results_hash pl, pf_status = ''pending''\<rparr>
        \<and> get (milestones (fst (submitProof_v2 s uuid pl))) (sp_milestone_id pl) =
            Some (m\<lparr>m_proofs := m_proofs m @ [uuid]\<rparr>))"
proof (intro conjI allI impI)
  fix s c mid m m'
  assume a: "get (milestones s) mid = Some m \<and> m_status m = ''pending'' \<and>
        get (milestones (step_v2 s c)) mid = Some m' \<and> m_status m' = ''completed''"
  show "\<exists>te pl. c = VerifyMilestone te pl \<and> vm_milestone_id pl = mid"
  proof (cases "\<forall>te pl. c \<noteq> VerifyMilestone te pl")
    case True
    then show ?thesis using status_step_v2 [of c s mid m] a by auto
  next
    case False
    then obtain te pl where c: "c = VerifyMilestone te pl" by blast
    have "vm_milestone_id pl = mid"
    proof (rule ccontr)
      assume "vm_milestone_id pl \<noteq> mid"
      then have "get (milestones (step_v2 s c)) mid = get (milestones s) mid"
        by (auto simp: c verifyMilestone_v2_def Let_def get_insert_store split: option.splits)
      moreover from a have "get (milestones s) mid = Some m" "m_status m = ''pending''"
        "get (milestones (step_v2 s c)) mid = Some m'" "m_status m' = ''completed''"
        by simp_all
      ultimately show False by simp
    qed
    then show ?thesis using c by blast
  qed
next
  fix s :: state and c mid m
  assume "(\<forall>te pl. c \<noteq> VerifyMilestone te pl) \<and>
        (\<forall>te uuid pl. c = CreateMilestone te uuid pl \<longrightarrow> get (milestones s) uuid = None) \<and>
        get (milestones s) mid = Some m"
  then show "\<exists>m'. get (milestones (step_v2 s c)) mid = Some m' \<and> m_status m' = m_status m"
    using status_step_v2 [of c s mid m] by blast
next
  fix s :: state and uuid and pl :: SubmitProofPayload and m :: Milestone
  assume g: "get (milestones s) (sp_milestone_id pl) = Some m"
  show "snd (submitProof_v2 s uuid pl) =
            Inr \<lparr>pf_id = uuid, pf_methodology_hash = sp_methodology_hash pl,
                 pf_results_hash = sp_results_hash pl, pf_status = ''pending''\<rparr>"
    by (rule submitProof_v2_ok(1) [OF g])
  show "get (proofs (fst (submitProof_v2 s uuid pl))) uuid =
            Some \<lparr>pf_id = uuid, pf_methodology_hash = sp_methodology_hash pl,
                  pf_results_hash = sp_results_hash pl, pf_status = ''pending''\<rparr>"
    by (rule submitProof_v2_ok(2) [OF g])
  show "get (milestones (fst (submitProof_v2 s uuid pl))) (sp_milestone_id pl) =
            Some (m\<lparr>m_proofs := m_proofs m @ [uuid]\<rparr>)"
    by (rule submitProof_v2_ok(3) [OF g])
qed

text \<open>The first canister: a call keeps every stored milestone, with its status.\<close>

lemma step_keeps_milestone:
  "get (milestones s) mid = Some m \<Longrightarrow>
   \<exists>m'. get (milestones (step s c)) mid = Some m' \<and>
        (m_status m = ''pending'' \<longrightarrow> m_status m' = ''pending'') \<and>
        ((\<forall>te uuid pl. c = CreateMilestone te uuid pl \<longrightarrow> uuid \<noteq> mid) \<longrightarrow> m' = m)"
  by (cases c)
     (auto simp: createResearcher_def createProposal_def submitReview_def fundProposal_def
        createMilestone_def verifyMilestone_def submitProof_def Let_def access_dot_Some
        get_insert_store split: option.splits sum.splits if_splits)

text \<open>
  C7 at its failing inputs. In the first canister, \<^verbatim>\<open>submitProof\<close> for a stored milestone
  (named by an ID that passes the ID check) stores a proof with status \<^verbatim>\<open>"pending"\<close> and
  then reads \<^verbatim>\<open>milestoneOpt.Some\<close> of the stored record, which is \<^verbatim>\<open>undefined\<close>:
  \<^verbatim>\<open>milestone.proofs\<close> throws, the call returns the \<^verbatim>\<open>Error\<close> variant and not the proof, and
  the proof's ID is appended to no list: the milestone store is left as it was. So in
  every reachable state of the first canister every stored milestone has an empty proof
  list. What the claim says of the status holds there, and more: no call of the first
  canister, \<^verbatim>\<open>verifyMilestone\<close> included, changes the status of a stored milestone to
  \<^verbatim>\<open>"completed"\<close>; a call leaves a stored milestone as it was unless it is a
  \<^verbatim>\<open>createMilestone\<close> call whose generated identifier is that milestone's key.
\<close>

theorem submitProof_never_appends:
  assumes "idPayloadValid (sp_milestone_id pl) = Inr ()"
    and "get (milestones s) (sp_milestone_id pl) = Some m"
  shows "snd (submitProof s te uuid pl) = Inl (Error (''Error occured '' @ te))
       \<and> get (proofs (fst (submitProof s te uuid pl))) uuid =
           Some \<lparr>pf_id = uuid, pf_methodology_hash = sp_methodology_hash pl,
                 pf_results_hash = sp_results_hash pl, pf_status = ''pending''\<rparr>
       \<and> milestones (fst (submitProof s te uuid pl)) = milestones s
       \<and> (\<forall>c mid m0. get (milestones s) mid = Some m0 \<longrightarrow>
            (\<exists>m'. get (milestones (step s c)) mid = Some m' \<and>
               (m_status m0 = ''pending'' \<longrightarrow> m_status m' = ''pending'') \<and>
               ((\<forall>te' uuid' pl'. c = CreateMilestone te' uuid' pl' \<longrightarrow> uuid' \<noteq> mid)
                  \<longrightarrow> m' = m0)))
       \<and> (\<forall>s'. reachable s' \<longrightarrow>
            (\<forall>mid m'. get (milestones s') mid = Some m' \<longrightarrow>
               m_status m' = ''pending'' \<and> m_proofs m' = []))"
proof -
  note sp = submitProof_stored [OF assms, of te uuid]
  have a: "snd (submitProof s te uuid pl) = Inl (Error (''Error occured '' @ te))"
    by (simp add: sp)
  have b: "get (proofs (fst (submitProof s te uuid pl))) uuid =
           Some \<lparr>pf_id = uuid, pf_methodology_hash = sp_methodology_hash pl,
                 pf_results_hash = sp_results_hash pl, pf_status = ''pending''\<rparr>"
    by (simp add: sp get_insert_store)
  have c: "milestones (fst (submitProof s te uuid pl)) = milestones s"
    by (simp add: sp)
  have d: "\<forall>c mid m0. get (milestones s) mid = Some m0 \<longrightarrow>
            (\<exists>m'. get (milestones (step s c)) mid = Some m' \<and>
               (m_status m0 = ''pending'' \<longrightarrow> m_status m' = ''pending'') \<and>
               ((\<forall>te' uuid' pl'. c = CreateMilestone te' uuid' pl' \<longrightarrow> uuid' \<noteq> mid)
                  \<longrightarrow> m' = m0))"
    using step_keeps_milestone by blast
  have e: "\<forall>s'. reachable s' \<longrightarrow>
            (\<forall>mid m'. get (milestones s') mid = Some m' \<longrightarrow>
               m_status m' = ''pending'' \<and> m_proofs m' = [])"
  proof (intro allI impI)
    fix s' mid m' assume "reachable s'" and g: "get (milestones s') mid = Some m'"
    then have "parents_untouched s'" by (simp add: pu_reachable)
    then show "m_status m' = ''pending'' \<and> m_proofs m' = []"
      using g unfolding parents_untouched_def by blast
  qed
  from a b c d e show ?thesis by blast
qed

theorem submitProof_never_appends_witness:
  "reachable ex_state
   \<and> idPayloadValid ''m1'' = Inr ()
   \<and> get (milestones ex_state) ''m1'' = Some ex_milestone
   \<and> snd (submitProof ex_state ex_text ''f1''
        \<lparr>sp_milestone_id = ''m1'', sp_methodology_hash = ''h1'', sp_results_hash = ''h2''\<rparr>)
       = Inl (Error (''Error occured '' @ ex_text))
   \<and> get (proofs (step ex_state (SubmitProof ex_text ''f1''
        \<lparr>sp_milestone_id = ''m1'', sp_methodology_hash = ''h1'', sp_results_hash = ''h2''\<rparr>)))
        ''f1''
       = Some \<lparr>pf_id = ''f1'', pf_methodology_hash = ''h1'', pf_results_hash = ''h2'',
               pf_status = ''pending''\<rparr>
   \<and> get (milestones (step ex_state (SubmitProof ex_text ''f1''
        \<lparr>sp_milestone_id = ''m1'', sp_methodology_hash = ''h1'', sp_results_hash = ''h2''\<rparr>)))
        ''m1''
       = Some ex_milestone
   \<and> m_proofs ex_milestone = []
   \<and> reachable_v2 ex_state_v2
   \<and> get (milestones ex_state_v2) ''m1'' = Some ex_milestone
   \<and> get (milestones (step_v2 ex_state_v2 (SubmitProof ex_text ''f1''
        \<lparr>sp_milestone_id = ''m1'', sp_methodology_hash = ''h1'', sp_results_hash = ''h2''\<rparr>)))
        ''m1''
       = Some (ex_milestone\<lparr>m_proofs := [''f1'']\<rparr>)"
proof -
  have g: "get (milestones ex_state) ''m1'' = Some ex_milestone"
    by (simp add: ex_state_value get_def)
  have g2: "get (milestones ex_state_v2) ''m1'' = Some ex_milestone"
    by (simp add: ex_state_v2_value get_def)
  note th = submitProof_never_appends [where s = ex_state and m = ex_milestone and
      te = ex_text and uuid = "''f1''" and
      pl = "\<lparr>sp_milestone_id = ''m1'', sp_methodology_hash = ''h1'', sp_results_hash = ''h2''\<rparr>"]
  have th': "snd (submitProof ex_state ex_text ''f1''
        \<lparr>sp_milestone_id = ''m1'', sp_methodology_hash = ''h1'', sp_results_hash = ''h2''\<rparr>)
       = Inl (Error (''Error occured '' @ ex_text))
     \<and> get (proofs (fst (submitProof ex_state ex_text ''f1''
        \<lparr>sp_milestone_id = ''m1'', sp_methodology_hash = ''h1'', sp_results_hash = ''h2''\<rparr>)))
        ''f1''
       = Some \<lparr>pf_id = ''f1'', pf_methodology_hash = ''h1'', pf_results_hash = ''h2'',
               pf_status = ''pending''\<rparr>
     \<and> milestones (fst (submitProof ex_state ex_text ''f1''
        \<lparr>sp_milestone_id = ''m1'', sp_methodology_hash = ''h1'', sp_results_hash = ''h2''\<rparr>))
       = milestones ex_state"
    using th g by (simp add: valid_id_m1)
  have v2: "get (milestones (step_v2 ex_state_v2 (SubmitProof ex_text ''f1''
        \<lparr>sp_milestone_id = ''m1'', sp_methodology_hash = ''h1'', sp_results_hash = ''h2''\<rparr>)))
        ''m1''
       = Some (ex_milestone\<lparr>m_proofs := [''f1'']\<rparr>)"
    using submitProof_v2_ok(3) [where s = ex_state_v2 and m = ex_milestone and uuid = "''f1''" and
      pl = "\<lparr>sp_milestone_id = ''m1'', sp_methodology_hash = ''h1'', sp_results_hash = ''h2''\<rparr>"]
      g2
    by (simp add: ex_milestone_def)
  show ?thesis
    using th' g g2 v2 reachable_ex_state reachable_ex_state_v2 valid_id_m1
    by (simp add: ex_milestone_def)
qed

subsection \<open>Points and badges\<close>

lemma reachable_pts_foldl: "reachable_pts s \<Longrightarrow> reachable_pts (foldl step_pts s cs)"
  by (induction cs arbitrary: s) (simp_all add: reachable_pts_step)

lemma submitReview_pts_ok:
  assumes "get (Proposals t) (sr_proposal_id pl) = Some p"
    and "1 \<le> sr_score pl" and "sr_score pl \<le> 10" and "100 \<le> sr_stake_amount pl"
  shows "snd (submitReview_pts t caller uuid pl) =
           Inr \<lparr>rv_id = uuid, rv_reviewer = caller, rv_score = sr_score pl,
                rv_comments = sr_comments pl, rv_stake_amount = sr_stake_amount pl,
                rv_verified = False,
                points_earned = REVIEW_BASE * sr_score pl * REVIEW_QUALITY_MULTIPLIER\<rparr>"
    and "get (Reviews (fst (submitReview_pts t caller uuid pl))) uuid =
           Some \<lparr>rv_id = uuid, rv_reviewer = caller, rv_score = sr_score pl,
                 rv_comments = sr_comments pl, rv_stake_amount = sr_stake_amount pl,
                 rv_verified = False,
                 points_earned = REVIEW_BASE * sr_score pl * REVIEW_QUALITY_MULTIPLIER\<rparr>"
    and "\<exists>r'. get (Researchers (fst (submitReview_pts t caller uuid pl))) caller = Some r' \<and>
              total_points r' =
                total_points (profile_or_default t caller)
                  + REVIEW_BASE * sr_score pl * REVIEW_QUALITY_MULTIPLIER"
  using assms
  by (auto simp: submitReview_pts_def Let_def get_insert_store profile_or_default_def
           split: option.splits)

text \<open>
  C6. In the points-tracking canister, \<^verbatim>\<open>submitReview\<close> on a stored proposal with
  \<open>1 \<le> score \<le> 10\<close> and a stake of at least 100 returns and stores a review whose
  \<^verbatim>\<open>points_earned\<close> is \<open>REVIEW_BASE * score * REVIEW_QUALITY_MULTIPLIER = 20 * score\<close>
  (between 20 and 200), and the caller's profile, created with zero points if there was
  none, has that amount added to its \<^verbatim>\<open>total_points\<close>.
\<close>

theorem submitReview_points_earned:
  assumes "get (Proposals t) (sr_proposal_id pl) = Some p"
    and "1 \<le> sr_score pl" and "sr_score pl \<le> 10" and "100 \<le> sr_stake_amount pl"
  shows "\<exists>rv r'. snd (submitReview_pts t caller uuid pl) = Inr rv
           \<and> get (Reviews (fst (submitReview_pts t caller uuid pl))) uuid = Some rv
           \<and> points_earned rv = REVIEW_BASE * sr_score pl * REVIEW_QUALITY_MULTIPLIER
           \<and> points_earned rv = 20 * sr_score pl
           \<and> 20 \<le> points_earned rv \<and> points_earned rv \<le> 200
           \<and> get (Researchers (fst (submitReview_pts t caller uuid pl))) caller = Some r'
           \<and> total_points r' =
                (case get (Researchers t) caller of None \<Rightarrow> 0 | Some r \<Rightarrow> total_points r)
                  + points_earned rv"
proof -
  note ok = submitReview_pts_ok [OF assms, of caller uuid]
  from ok(3) obtain r' where r':
    "get (Researchers (fst (submitReview_pts t caller uuid pl))) caller = Some r'"
    "total_points r' = total_points (profile_or_default t caller)
                  + REVIEW_BASE * sr_score pl * REVIEW_QUALITY_MULTIPLIER" by blast
  have tp: "total_points (profile_or_default t caller) =
              (case get (Researchers t) caller of None \<Rightarrow> 0 | Some r \<Rightarrow> total_points r)"
    by (simp add: profile_or_default_def split: option.splits)
  show ?thesis
    using ok(1,2) r' tp assms(2,3)
    by (simp add: REVIEW_BASE_def REVIEW_QUALITY_MULTIPLIER_def)
qed

lemma ex_seeded_pts_value:
  "Researchers ex_seeded_pts =
     [(''alice'', \<lparr>principal = ''alice'', reputation_score = 0, total_points = 20,
         badges = [''research_starter''], contributions = [''p1''], achievements = []\<rparr>)]"
  "Badges ex_seeded_pts = map (\<lambda>b. (badge_id b, b)) DEFAULT_BADGES"
  "Proposals ex_seeded_pts =
     [(''p1'', \<lparr>pp_id = ''p1'', pp_researcher = ''alice'', pp_title = ''T'', pp_description = ''D'',
           pp_methodology = ''M'', pp_milestones = [], pp_funding_target = 1000,
           pp_current_funding = 0, pp_stage = ''draft'', pp_reviews = [],
           pp_timeline = ''2024-01-01'', pp_contributors_points = []\<rparr>)]"
  "Reviews ex_seeded_pts = []"
  by (simp_all add: ex_seeded_pts_def ex_run_pts_def empty_pts_def init_def
        createProposal_pts_def Let_def profile_or_default_def get_def insert_store_def
        DEFAULT_BADGES_def PROPOSAL_CREATION_def)

theorem submitReview_points_earned_witness:
  "get (Proposals ex_seeded_pts) ''p1'' \<noteq> None
   \<and> get (Researchers ex_seeded_pts) ''bob'' = None
   \<and> (\<exists>rv r'. snd (submitReview_pts ex_seeded_pts ''bob'' ''v1''
                 \<lparr>sr_proposal_id = ''p1'', sr_score = 9, sr_comments = ''good'',
                  sr_stake_amount = 100\<rparr>) = Inr rv
      \<and> points_earned rv = 180
      \<and> get (Researchers (fst (submitReview_pts ex_seeded_pts ''bob'' ''v1''
                 \<lparr>sr_proposal_id = ''p1'', sr_score = 9, sr_comments = ''good'',
                  sr_stake_amount = 100\<rparr>))) ''bob'' = Some r'
      \<and> total_points r' = 180)"
proof -
  have p: "get (Proposals ex_seeded_pts) ''p1'' = Some (snd (hd (Proposals ex_seeded_pts)))"
    by (simp add: ex_seeded_pts_value get_def)
  have none: "get (Researchers ex_seeded_pts) ''bob'' = None"
    by (simp add: ex_seeded_pts_value get_def)
  have "\<exists>rv r'. snd (submitReview_pts ex_seeded_pts ''bob'' ''v1''
                 \<lparr>sr_proposal_id = ''p1'', sr_score = 9, sr_comments = ''good'',
                  sr_stake_amount = 100\<rparr>) = Inr rv
      \<and> points_earned rv = 180
      \<and> get (Researchers (fst (submitReview_pts ex_seeded_pts ''bob'' ''v1''
                 \<lparr>sr_proposal_id = ''p1'', sr_score = 9, sr_comments = ''good'',
                  sr_stake_amount = 100\<rparr>))) ''bob'' = Some r'
      \<and> total_points r' = 180"
    using submitReview_points_earned [where t = ex_seeded_pts and caller = "''bob''" and
        uuid = "''v1''" and p = "snd (hd (Proposals ex_seeded_pts))" and
        pl = "\<lparr>sr_proposal_id = ''p1'', sr_score = 9, sr_comments = ''good'', sr_stake_amount = 100\<rparr>"]
      p none
    by auto
  then show ?thesis using p none by simp
qed

lemma init_Researchers: "Researchers (fst (init s)) = Researchers s"
  by (simp add: init_def)

lemma init_review_master:
  "get (Badges (fst (init s))) ''review_master'' = Some b \<Longrightarrow> points_threshold b = 200"
  by (auto simp: init_def DEFAULT_BADGES_def get_insert_store)

lemma createProposal_pts_Badges:
  "Badges (fst (createProposal_pts s caller uuid created pl)) = Badges s"
  by (simp add: createProposal_pts_def Let_def)

lemma submitReview_pts_Badges:
  "Badges (fst (submitReview_pts s caller uuid pl)) = Badges s"
  by (simp add: submitReview_pts_def Let_def split: option.splits)

lemma createProposal_pts_profile:
  "get (Researchers (fst (createProposal_pts s caller uuid created pl))) pr = Some r' \<Longrightarrow>
   get (Researchers s) pr = Some r' \<or>
   (pr = caller \<and>
    total_points r' = total_points (profile_or_default s caller) + 20 \<and>
    set (badges r') = insert ''research_starter'' (set (badges (profile_or_default s caller))))"
  by (auto simp: createProposal_pts_def Let_def get_insert_store PROPOSAL_CREATION_def
           split: if_splits)

lemma submitReview_pts_profile:
  "get (Researchers (fst (submitReview_pts s caller uuid pl))) pr = Some r' \<Longrightarrow>
   get (Researchers s) pr = Some r' \<or>
   (pr = caller \<and>
    total_points (profile_or_default s caller) \<le> total_points r' \<and>
    (set (badges r') = set (badges (profile_or_default s caller)) \<or>
     (set (badges r') = insert ''review_master'' (set (badges (profile_or_default s caller))) \<and>
      (\<exists>b. get (Badges s) ''review_master'' = Some b \<and> points_threshold b \<le> total_points r'))))"
  by (auto simp: submitReview_pts_def Let_def get_insert_store profile_or_default_def
           split: option.splits if_splits)

lemma profile_or_default_backed:
  assumes "badges_backed s"
  shows "\<forall>b\<in>set DEFAULT_BADGES. badge_id b \<in> set (badges (profile_or_default s caller)) \<longrightarrow>
           points_threshold b \<le> total_points (profile_or_default s caller)"
  using assms unfolding badges_backed_def profile_or_default_def
  by (auto split: option.splits)

lemma bb_empty: "badges_backed empty_pts"
  by (simp add: badges_backed_def empty_pts_def get_def)

lemma bb_init: "badges_backed s \<Longrightarrow> badges_backed (fst (init s))"
  unfolding badges_backed_def using init_review_master [of s]
  by (auto simp: init_Researchers)

lemma bb_createProposal_pts:
  assumes "badges_backed s"
  shows "badges_backed (fst (createProposal_pts s caller uuid created pl))"
  unfolding badges_backed_def
proof (intro conjI allI impI ballI)
  fix pr r b
  assume g: "get (Researchers (fst (createProposal_pts s caller uuid created pl))) pr = Some r"
    and b: "b \<in> set DEFAULT_BADGES" and h: "badge_id b \<in> set (badges r)"
  from createProposal_pts_profile [OF g] show "points_threshold b \<le> total_points r"
  proof
    assume "get (Researchers s) pr = Some r"
    then show ?thesis using assms b h unfolding badges_backed_def by blast
  next
    assume n: "pr = caller \<and>
      total_points r = total_points (profile_or_default s caller) + 20 \<and>
      set (badges r) = insert ''research_starter'' (set (badges (profile_or_default s caller)))"
    show ?thesis
    proof (cases "badge_id b = ''research_starter''")
      case True
      then have "points_threshold b = 20" using b by (auto simp: DEFAULT_BADGES_def)
      then show ?thesis using n by simp
    next
      case False
      then have "badge_id b \<in> set (badges (profile_or_default s caller))" using n h by auto
      then have "points_threshold b \<le> total_points (profile_or_default s caller)"
        using profile_or_default_backed [OF assms, of caller] b by blast
      then show ?thesis using n by simp
    qed
  qed
next
  fix b
  assume "get (Badges (fst (createProposal_pts s caller uuid created pl))) ''review_master'' = Some b"
  then show "points_threshold b = 200"
    using assms unfolding badges_backed_def by (simp add: createProposal_pts_Badges)
qed

lemma bb_submitReview_pts:
  assumes "badges_backed s"
  shows "badges_backed (fst (submitReview_pts s caller uuid pl))"
  unfolding badges_backed_def
proof (intro conjI allI impI ballI)
  fix pr r b
  assume g: "get (Researchers (fst (submitReview_pts s caller uuid pl))) pr = Some r"
    and b: "b \<in> set DEFAULT_BADGES" and h: "badge_id b \<in> set (badges r)"
  from submitReview_pts_profile [OF g] show "points_threshold b \<le> total_points r"
  proof
    assume "get (Researchers s) pr = Some r"
    then show ?thesis using assms b h unfolding badges_backed_def by blast
  next
    assume n: "pr = caller \<and>
      total_points (profile_or_default s caller) \<le> total_points r \<and>
      (set (badges r) = set (badges (profile_or_default s caller)) \<or>
       (set (badges r) = insert ''review_master'' (set (badges (profile_or_default s caller))) \<and>
        (\<exists>b. get (Badges s) ''review_master'' = Some b \<and> points_threshold b \<le> total_points r)))"
    have old: "badge_id b \<in> set (badges (profile_or_default s caller)) \<Longrightarrow> ?thesis"
      using profile_or_default_backed [OF assms, of caller] b n by fastforce
    show ?thesis
    proof (cases "badge_id b \<in> set (badges (profile_or_default s caller))")
      case True
      then show ?thesis by (rule old)
    next
      case False
      then have id: "badge_id b = ''review_master''"
        and ex: "\<exists>b'. get (Badges s) ''review_master'' = Some b' \<and> points_threshold b' \<le> total_points r"
        using n h by auto
      from ex assms have "200 \<le> total_points r" unfolding badges_backed_def by auto
      moreover have "points_threshold b = 200" using id b by (auto simp: DEFAULT_BADGES_def)
      ultimately show ?thesis by simp
    qed
  qed
next
  fix b
  assume "get (Badges (fst (submitReview_pts s caller uuid pl))) ''review_master'' = Some b"
  then show "points_threshold b = 200"
    using assms unfolding badges_backed_def by (simp add: submitReview_pts_Badges)
qed

lemma bb_step: "badges_backed s \<Longrightarrow> badges_backed (step_pts s c)"
  by (cases c) (simp_all add: bb_init bb_createProposal_pts bb_submitReview_pts)

lemma bb_reachable: "reachable_pts s \<Longrightarrow> badges_backed s"
  by (induction rule: reachable_pts.induct) (simp_all add: bb_empty bb_step)

lemma badges_kept_createProposal_pts:
  "get (Researchers s) pr = Some r \<Longrightarrow>
   \<exists>r'. get (Researchers (fst (createProposal_pts s caller uuid created pl))) pr = Some r' \<and>
        set (badges r) \<subseteq> set (badges r') \<and> total_points r \<le> total_points r'"
  by (auto simp: createProposal_pts_def Let_def get_insert_store profile_or_default_def)

lemma badges_kept_submitReview_pts:
  "get (Researchers s) pr = Some r \<Longrightarrow>
   \<exists>r'. get (Researchers (fst (submitReview_pts s caller uuid pl))) pr = Some r' \<and>
        set (badges r) \<subseteq> set (badges r') \<and> total_points r \<le> total_points r'"
  by (auto simp: submitReview_pts_def Let_def get_insert_store profile_or_default_def
           split: option.splits)

lemma badges_kept_step:
  "get (Researchers s) pr = Some r \<Longrightarrow>
   \<exists>r'. get (Researchers (step_pts s c)) pr = Some r' \<and>
        set (badges r) \<subseteq> set (badges r') \<and> total_points r \<le> total_points r'"
  by (cases c)
     (simp_all add: init_Researchers badges_kept_createProposal_pts badges_kept_submitReview_pts)

lemma createProposal_pts_awards:
  "snd (createProposal_pts s caller uuid created pl) = Inr p \<Longrightarrow>
   \<exists>r'. get (Researchers (fst (createProposal_pts s caller uuid created pl))) caller = Some r' \<and>
        ''research_starter'' \<in> set (badges r') \<and>
        total_points r' = total_points (profile_or_default s caller) + PROPOSAL_CREATION"
  by (auto simp: createProposal_pts_def Let_def get_insert_store split: if_splits)

lemma submitReview_pts_awards:
  "snd (submitReview_pts s caller uuid pl) = Inr rv \<Longrightarrow>
   get (Badges s) ''review_master'' = Some b \<Longrightarrow>
   \<exists>r'. get (Researchers (fst (submitReview_pts s caller uuid pl))) caller = Some r' \<and>
        (points_threshold b \<le> total_points r' \<longrightarrow> ''review_master'' \<in> set (badges r'))"
  by (auto simp: submitReview_pts_def Let_def get_insert_store split: option.splits if_splits)

lemma reachable_ex_seeded_pts: "reachable_pts ex_seeded_pts"
  unfolding ex_seeded_pts_def by (rule reachable_pts_foldl) (rule reachable_pts_init)

lemma reachable_ex_reached_pts: "reachable_pts ex_reached_pts"
  unfolding ex_reached_pts_def by (rule reachable_pts_step) (rule reachable_ex_seeded_pts)

lemma ex_reached_pts_value:
  "Researchers ex_reached_pts =
     [(''alice'', \<lparr>principal = ''alice'', reputation_score = 0, total_points = 20,
         badges = [''research_starter''], contributions = [''p1''], achievements = []\<rparr>),
      (''bob'', \<lparr>principal = ''bob'', reputation_score = 0, total_points = 20,
         badges = [], contributions = [''v1''], achievements = []\<rparr>)]"
  "Badges ex_reached_pts = map (\<lambda>b. (badge_id b, b)) DEFAULT_BADGES"
  "Reviews ex_reached_pts =
     [(''v1'', \<lparr>rv_id = ''v1'', rv_reviewer = ''bob'', rv_score = 1, rv_comments = ''weak'',
         rv_stake_amount = 100, rv_verified = False, points_earned = 20\<rparr>)]"
  by (simp_all add: ex_reached_pts_def ex_seeded_pts_value submitReview_pts_def Let_def
        profile_or_default_def get_def insert_store_def DEFAULT_BADGES_def
        REVIEW_BASE_def REVIEW_QUALITY_MULTIPLIER_def)

lemma step_pts_profile:
  "get (Researchers (step_pts s c)) pr = Some r' \<Longrightarrow>
   get (Researchers s) pr = Some r' \<or>
   (\<exists>uuid created pl. c = CreateProposal_pts pr uuid created pl \<and>
      total_points r' = total_points (profile_or_default s pr) + 20 \<and>
      set (badges r') = insert ''research_starter'' (set (badges (profile_or_default s pr)))) \<or>
   (\<exists>uuid pl. c = SubmitReview_pts pr uuid pl \<and>
      total_points (profile_or_default s pr) \<le> total_points r' \<and>
      (set (badges r') = set (badges (profile_or_default s pr)) \<or>
       (set (badges r') = insert ''review_master'' (set (badges (profile_or_default s pr))) \<and>
        (\<exists>b. get (Badges s) ''review_master'' = Some b \<and>
             points_threshold b \<le> total_points r'))))"
proof (cases c)
  case Init
  assume "get (Researchers (step_pts s c)) pr = Some r'"
  then show ?thesis by (simp add: Init init_Researchers)
next
  case (CreateProposal_pts caller uuid created pl)
  assume "get (Researchers (step_pts s c)) pr = Some r'"
  then show ?thesis
    using createProposal_pts_profile [of s caller uuid created pl pr r']
    by (auto simp: CreateProposal_pts)
next
  case (SubmitReview_pts caller uuid pl)
  assume "get (Researchers (step_pts s c)) pr = Some r'"
  then show ?thesis
    using submitReview_pts_profile [of s caller uuid pl pr r']
    by (auto simp: SubmitReview_pts)
qed

lemma profile_or_default_badges:
  "(\<And>r. get (Researchers s) pr = Some r \<Longrightarrow> set (badges r) \<subseteq> B) \<Longrightarrow>
   set (badges (profile_or_default s pr)) \<subseteq> B"
  by (simp add: profile_or_default_def split: option.splits)

lemma badges_granted_reachable:
  "reachable_pts s \<Longrightarrow> get (Researchers s) pr = Some r \<Longrightarrow>
   set (badges r) \<subseteq> {''research_starter'', ''review_master''}"
proof (induction arbitrary: pr r rule: reachable_pts.induct)
  case reachable_pts_init
  then show ?case by (simp add: empty_pts_def get_def)
next
  case (reachable_pts_step s c)
  have old: "set (badges (profile_or_default s pr)) \<subseteq> {''research_starter'', ''review_master''}"
    by (rule profile_or_default_badges) (rule reachable_pts_step.IH)
  from step_pts_profile [OF reachable_pts_step.prems]
  show ?case using old reachable_pts_step.IH [of pr r] by auto
qed

text \<open>
  C3, as stated, fails. In the reachable state \<open>ex_reached_pts\<close> bob has earned 20 points
  with one review of score 1, which reaches the threshold 20 of \<^verbatim>\<open>research_starter\<close>, and
  his badge list is empty: \<^verbatim>\<open>submitReview\<close> checks the \<^verbatim>\<open>review_master\<close> badge only.
\<close>

theorem badge_iff_points_counterexample:
  "reachable_pts ex_reached_pts
   \<and> get (Researchers ex_reached_pts) ''bob'' =
       Some \<lparr>principal = ''bob'', reputation_score = 0, total_points = 20, badges = [],
             contributions = [''v1''], achievements = []\<rparr>
   \<and> hd DEFAULT_BADGES \<in> set DEFAULT_BADGES
   \<and> badge_id (hd DEFAULT_BADGES) = ''research_starter''
   \<and> points_threshold (hd DEFAULT_BADGES) = 20
   \<and> \<not> (badge_id (hd DEFAULT_BADGES)
           \<in> set (badges \<lparr>principal = ''bob'', reputation_score = 0, total_points = 20,
                           badges = [], contributions = [''v1''], achievements = []\<rparr>)
         \<longleftrightarrow> points_threshold (hd DEFAULT_BADGES)
               \<le> total_points \<lparr>principal = ''bob'', reputation_score = 0, total_points = 20,
                                badges = [], contributions = [''v1''], achievements = []\<rparr>)"
  using reachable_ex_reached_pts
  by (simp add: ex_reached_pts_value get_def DEFAULT_BADGES_def)

text \<open>
  C3, amended. In every reachable state of the points-tracking canister a catalog badge
  that is in a researcher's badge list is backed by the points: \<^verbatim>\<open>total_points\<close> is at
  least the badge's threshold. No call removes a badge or lowers \<^verbatim>\<open>total_points\<close>. A
  successful \<^verbatim>\<open>createProposal\<close> leaves the caller with \<^verbatim>\<open>research_starter\<close>, and a
  successful \<^verbatim>\<open>submitReview\<close> with the catalog seeded leaves the caller with
  \<^verbatim>\<open>review_master\<close> if the caller's points have reached its threshold. Reaching a
  threshold by another route grants nothing: a profile written by a call is the caller's,
  \<^verbatim>\<open>createProposal\<close> adds \<^verbatim>\<open>research_starter\<close> to the caller's badges and no other badge,
  \<^verbatim>\<open>submitReview\<close> adds \<^verbatim>\<open>review_master\<close>, and only with the catalog seeded and the
  threshold reached, or nothing, and \<^verbatim>\<open>init\<close> writes no profile; so in every reachable
  state a badge list holds no badge other than these two, and never \<^verbatim>\<open>funding_champion\<close>.
\<close>

theorem badge_only_if_points:
  "(\<forall>s. reachable_pts s \<longrightarrow>
      (\<forall>pr r. get (Researchers s) pr = Some r \<longrightarrow>
         (\<forall>b\<in>set DEFAULT_BADGES. badge_id b \<in> set (badges r) \<longrightarrow>
            points_threshold b \<le> total_points r)))
   \<and> (\<forall>s c pr r. get (Researchers s) pr = Some r \<longrightarrow>
        (\<exists>r'. get (Researchers (step_pts s c)) pr = Some r' \<and>
              set (badges r) \<subseteq> set (badges r') \<and> total_points r \<le> total_points r'))
   \<and> (\<forall>s caller uuid created pl p.
        snd (createProposal_pts s caller uuid created pl) = Inr p \<longrightarrow>
        (\<exists>r'. get (Researchers (fst (createProposal_pts s caller uuid created pl))) caller = Some r'
             \<and> ''research_starter'' \<in> set (badges r')
             \<and> total_points r' = total_points (profile_or_default s caller) + PROPOSAL_CREATION))
   \<and> (\<forall>s caller uuid pl rv b.
        snd (submitReview_pts s caller uuid pl) = Inr rv \<and>
        get (Badges s) ''review_master'' = Some b \<longrightarrow>
        (\<exists>r'. get (Researchers (fst (submitReview_pts s caller uuid pl))) caller = Some r'
             \<and> (points_threshold b \<le> total_points r' \<longrightarrow> ''review_master'' \<in> set (badges r'))))
   \<and> (\<forall>s c pr r'. get (Researchers (step_pts s c)) pr = Some r' \<longrightarrow>
        get (Researchers s) pr = Some r' \<or>
        (\<exists>uuid created pl. c = CreateProposal_pts pr uuid created pl \<and>
           total_points r' = total_points (profile_or_default s pr) + 20 \<and>
           set (badges r') =
             insert ''research_starter'' (set (badges (profile_or_default s pr)))) \<or>
        (\<exists>uuid pl. c = SubmitReview_pts pr uuid pl \<and>
           total_points (profile_or_default s pr) \<le> total_points r' \<and>
           (set (badges r') = set (badges (profile_or_default s pr)) \<or>
            (set (badges r') =
               insert ''review_master'' (set (badges (profile_or_default s pr))) \<and>
             (\<exists>b. get (Badges s) ''review_master'' = Some b \<and>
                  points_threshold b \<le> total_points r')))))
   \<and> (\<forall>s pr r. reachable_pts s \<and> get (Researchers s) pr = Some r \<longrightarrow>
        set (badges r) \<subseteq> {''research_starter'', ''review_master''} \<and>
        ''funding_champion'' \<notin> set (badges r))"
proof (intro conjI allI impI)
  fix s :: state_pts and c pr r'
  assume "get (Researchers (step_pts s c)) pr = Some r'"
  then show "get (Researchers s) pr = Some r' \<or>
        (\<exists>uuid created pl. c = CreateProposal_pts pr uuid created pl \<and>
           total_points r' = total_points (profile_or_default s pr) + 20 \<and>
           set (badges r') =
             insert ''research_starter'' (set (badges (profile_or_default s pr)))) \<or>
        (\<exists>uuid pl. c = SubmitReview_pts pr uuid pl \<and>
           total_points (profile_or_default s pr) \<le> total_points r' \<and>
           (set (badges r') = set (badges (profile_or_default s pr)) \<or>
            (set (badges r') =
               insert ''review_master'' (set (badges (profile_or_default s pr))) \<and>
             (\<exists>b. get (Badges s) ''review_master'' = Some b \<and>
                  points_threshold b \<le> total_points r'))))"
    by (rule step_pts_profile)
next
  fix s pr r
  assume a: "reachable_pts s \<and> get (Researchers s) pr = Some r"
  then show sub: "set (badges r) \<subseteq> {''research_starter'', ''review_master''}"
    using badges_granted_reachable [of s pr r] by simp
  then show "''funding_champion'' \<notin> set (badges r)" by auto
next
  fix s pr r
  assume "reachable_pts s" and "get (Researchers s) pr = Some r"
  then show "\<forall>b\<in>set DEFAULT_BADGES. badge_id b \<in> set (badges r) \<longrightarrow>
            points_threshold b \<le> total_points r"
    using bb_reachable [of s] unfolding badges_backed_def by blast
next
  fix s :: state_pts and c pr r
  assume "get (Researchers s) pr = Some r"
  then show "\<exists>r'. get (Researchers (step_pts s c)) pr = Some r' \<and>
              set (badges r) \<subseteq> set (badges r') \<and> total_points r \<le> total_points r'"
    by (rule badges_kept_step)
next
  fix s caller uuid created pl p
  assume "snd (createProposal_pts s caller uuid created pl) = Inr p"
  then show "\<exists>r'. get (Researchers (fst (createProposal_pts s caller uuid created pl))) caller = Some r'
             \<and> ''research_starter'' \<in> set (badges r')
             \<and> total_points r' = total_points (profile_or_default s caller) + PROPOSAL_CREATION"
    by (rule createProposal_pts_awards)
next
  fix s caller uuid pl rv b
  assume "snd (submitReview_pts s caller uuid pl) = Inr rv \<and>
        get (Badges s) ''review_master'' = Some b"
  then show "\<exists>r'. get (Researchers (fst (submitReview_pts s caller uuid pl))) caller = Some r'
             \<and> (points_threshold b \<le> total_points r' \<longrightarrow> ''review_master'' \<in> set (badges r'))"
    using submitReview_pts_awards [of s caller uuid pl rv b] by blast
qed

theorem badge_only_if_points_witness:
  "reachable_pts ex_reached_pts
   \<and> get (Researchers ex_reached_pts) ''alice'' =
       Some \<lparr>principal = ''alice'', reputation_score = 0, total_points = 20,
             badges = [''research_starter''], contributions = [''p1''], achievements = []\<rparr>
   \<and> hd DEFAULT_BADGES \<in> set DEFAULT_BADGES
   \<and> badge_id (hd DEFAULT_BADGES) = ''research_starter''
   \<and> points_threshold (hd DEFAULT_BADGES) \<le> 20
   \<and> (\<exists>r'. get (Researchers (step_pts ex_reached_pts Init)) ''alice'' = Some r' \<and>
           ''research_starter'' \<in> set (badges r') \<and> 20 \<le> total_points r')
   \<and> (\<exists>r. get (Researchers ex_reached_pts) ''alice'' = Some r \<and>
          ''funding_champion'' \<notin> set (badges r))"
proof -
  have g: "get (Researchers ex_reached_pts) ''alice'' =
       Some \<lparr>principal = ''alice'', reputation_score = 0, total_points = 20,
             badges = [''research_starter''], contributions = [''p1''], achievements = []\<rparr>"
    by (simp add: ex_reached_pts_value get_def)
  note th = badge_only_if_points
  have m: "hd DEFAULT_BADGES \<in> set DEFAULT_BADGES"
    and i: "badge_id (hd DEFAULT_BADGES) = ''research_starter''"
    by (simp_all add: DEFAULT_BADGES_def)
  have a: "points_threshold (hd DEFAULT_BADGES) \<le> 20"
    using th [THEN conjunct1, rule_format, OF reachable_ex_reached_pts g m] i by simp
  have b: "\<exists>r'. get (Researchers (step_pts ex_reached_pts Init)) ''alice'' = Some r' \<and>
           ''research_starter'' \<in> set (badges r') \<and> 20 \<le> total_points r'"
    using th [THEN conjunct2, THEN conjunct1, rule_format, OF g, of Init] by auto
  have c: "\<exists>r. get (Researchers ex_reached_pts) ''alice'' = Some r \<and>
          ''funding_champion'' \<notin> set (badges r)"
    using th [THEN conjunct2, THEN conjunct2, THEN conjunct2, THEN conjunct2, THEN conjunct2,
              rule_format, where s = ex_reached_pts and pr = "''alice''"]
      reachable_ex_reached_pts g
    by blast
  show ?thesis using reachable_ex_reached_pts g m i a b c by blast
qed

subsection \<open>Verified flags\<close>

text \<open>
  What a call writes into the stores of reviews and proofs. In the first canister this
  includes the calls that store the record and are then stopped by the \<^verbatim>\<open>TypeError\<close>.
\<close>

lemma step_review_written:
  "get (reviews (step s c)) rid = Some r' \<Longrightarrow> get (reviews s) rid = Some r' \<or> \<not> rv_verified r'"
  by (cases c)
     (auto simp: createResearcher_def createProposal_def submitReview_def fundProposal_def
        createMilestone_def verifyMilestone_def submitProof_def Let_def access_dot_Some
        get_insert_store split: option.splits sum.splits if_splits)

lemma step_proof_written:
  "get (proofs (step s c)) fid = Some f' \<Longrightarrow>
   get (proofs s) fid = Some f' \<or> pf_status f' = ''pending''"
  by (cases c)
     (auto simp: createResearcher_def createProposal_def submitReview_def fundProposal_def
        createMilestone_def verifyMilestone_def submitProof_def Let_def access_dot_Some
        get_insert_store split: option.splits sum.splits if_splits)

lemma step_v2_review_written:
  "get (reviews (step_v2 s c)) rid = Some r' \<Longrightarrow>
   get (reviews s) rid = Some r' \<or> \<not> rv_verified r'"
  by (cases c)
     (auto simp: createResearcher_def createProposal_v2_def submitReview_v2_def
        fundProposal_v2_def createMilestone_v2_def verifyMilestone_v2_def submitProof_v2_def
        Let_def get_insert_store split: option.splits if_splits)

lemma step_v2_proof_written:
  "get (proofs (step_v2 s c)) fid = Some f' \<Longrightarrow>
   get (proofs s) fid = Some f' \<or> pf_status f' = ''pending''"
  by (cases c)
     (auto simp: createResearcher_def createProposal_v2_def submitReview_v2_def
        fundProposal_v2_def createMilestone_v2_def verifyMilestone_v2_def submitProof_v2_def
        Let_def get_insert_store split: option.splits if_splits)

lemma step_pts_review_written:
  "get (Reviews (step_pts s c)) rid = Some r' \<Longrightarrow>
   get (Reviews s) rid = Some r' \<or> \<not> rv_verified r'"
  by (cases c)
     (auto simp: init_def createProposal_pts_def submitReview_pts_def Let_def get_insert_store
           split: option.splits if_splits)

lemma nv_init: "nothing_verified init_state"
  by (simp add: nothing_verified_def init_state_def get_def)

lemma nv_step: "nothing_verified s \<Longrightarrow> nothing_verified (step s c)"
  unfolding nothing_verified_def
  using step_review_written [of s c] step_proof_written [of s c] by blast

lemma nv_step_v2: "nothing_verified s \<Longrightarrow> nothing_verified (step_v2 s c)"
  unfolding nothing_verified_def
  using step_v2_review_written [of s c] step_v2_proof_written [of s c] by blast

lemma nv_reachable: "reachable s \<Longrightarrow> nothing_verified s"
  by (induction rule: reachable.induct) (simp_all add: nv_init nv_step)

lemma nv_reachable_v2: "reachable_v2 s \<Longrightarrow> nothing_verified s"
  by (induction rule: reachable_v2.induct) (simp_all add: nv_init nv_step_v2)

lemma nv_pts_empty: "nothing_verified_pts empty_pts"
  by (simp add: nothing_verified_pts_def empty_pts_def get_def)

lemma nv_pts_step: "nothing_verified_pts s \<Longrightarrow> nothing_verified_pts (step_pts s c)"
  unfolding nothing_verified_pts_def
  using step_pts_review_written [of s c] by blast

lemma nv_pts_reachable: "reachable_pts s \<Longrightarrow> nothing_verified_pts s"
  by (induction rule: reachable_pts.induct) (simp_all add: nv_pts_empty nv_pts_step)

text \<open>
  C10. After any update call of the first canister, a stored review is either the review
  that was stored under that ID before the call or has \<^verbatim>\<open>verified = false\<close>, and a stored
  proof is either the proof stored before or has status \<^verbatim>\<open>"pending"\<close>; this covers the
  calls that store a review or a proof and then answer \<^verbatim>\<open>Error\<close>. The same holds for every
  call of the second canister and for the reviews of the points-tracking canister. Hence
  in every reachable state of each of the three every stored review is unverified and
  every stored proof is pending.
\<close>

theorem never_verified:
  "(\<forall>s c rid r'. get (reviews (step s c)) rid = Some r' \<longrightarrow>
        get (reviews s) rid = Some r' \<or> \<not> rv_verified r')
   \<and> (\<forall>s c fid f'. get (proofs (step s c)) fid = Some f' \<longrightarrow>
        get (proofs s) fid = Some f' \<or> pf_status f' = ''pending'')
   \<and> (\<forall>s. reachable s \<longrightarrow>
        (\<forall>rid r. get (reviews s) rid = Some r \<longrightarrow> rv_verified r = False) \<and>
        (\<forall>fid f. get (proofs s) fid = Some f \<longrightarrow> pf_status f = ''pending''))
   \<and> (\<forall>s c rid r'. get (Reviews (step_pts s c)) rid = Some r' \<longrightarrow>
        get (Reviews s) rid = Some r' \<or> \<not> rv_verified r')
   \<and> (\<forall>s. reachable_pts s \<longrightarrow>
        (\<forall>rid r. get (Reviews s) rid = Some r \<longrightarrow> rv_verified r = False))
   \<and> (\<forall>s c rid r'. get (reviews (step_v2 s c)) rid = Some r' \<longrightarrow>
        get (reviews s) rid = Some r' \<or> \<not> rv_verified r')
   \<and> (\<forall>s c fid f'. get (proofs (step_v2 s c)) fid = Some f' \<longrightarrow>
        get (proofs s) fid = Some f' \<or> pf_status f' = ''pending'')
   \<and> (\<forall>s. reachable_v2 s \<longrightarrow>
        (\<forall>rid r. get (reviews s) rid = Some r \<longrightarrow> rv_verified r = False) \<and>
        (\<forall>fid f. get (proofs s) fid = Some f \<longrightarrow> pf_status f = ''pending''))"
proof (intro conjI allI impI)
  fix s :: state and c rid r'
  assume "get (reviews (step s c)) rid = Some r'"
  then show "get (reviews s) rid = Some r' \<or> \<not> rv_verified r'"
    by (rule step_review_written)
next
  fix s :: state and c fid f'
  assume "get (proofs (step s c)) fid = Some f'"
  then show "get (proofs s) fid = Some f' \<or> pf_status f' = ''pending''"
    by (rule step_proof_written)
next
  fix s rid r
  assume "reachable s" and "get (reviews s) rid = Some r"
  then show "rv_verified r = False"
    using nv_reachable [of s] unfolding nothing_verified_def by blast
next
  fix s fid f
  assume "reachable s" and "get (proofs s) fid = Some f"
  then show "pf_status f = ''pending''"
    using nv_reachable [of s] unfolding nothing_verified_def by blast
next
  fix s :: state_pts and c rid r'
  assume "get (Reviews (step_pts s c)) rid = Some r'"
  then show "get (Reviews s) rid = Some r' \<or> \<not> rv_verified r'"
    by (rule step_pts_review_written)
next
  fix s rid r
  assume "reachable_pts s" and "get (Reviews s) rid = Some r"
  then show "rv_verified r = False"
    using nv_pts_reachable [of s] unfolding nothing_verified_pts_def by blast
next
  fix s :: state and c rid r'
  assume "get (reviews (step_v2 s c)) rid = Some r'"
  then show "get (reviews s) rid = Some r' \<or> \<not> rv_verified r'"
    by (rule step_v2_review_written)
next
  fix s :: state and c fid f'
  assume "get (proofs (step_v2 s c)) fid = Some f'"
  then show "get (proofs s) fid = Some f' \<or> pf_status f' = ''pending''"
    by (rule step_v2_proof_written)
next
  fix s rid r
  assume "reachable_v2 s" and "get (reviews s) rid = Some r"
  then show "rv_verified r = False"
    using nv_reachable_v2 [of s] unfolding nothing_verified_def by blast
next
  fix s fid f
  assume "reachable_v2 s" and "get (proofs s) fid = Some f"
  then show "pf_status f = ''pending''"
    using nv_reachable_v2 [of s] unfolding nothing_verified_def by blast
qed

theorem never_verified_witness:
  "reachable ex_reached
   \<and> get (reviews ex_reached) ''v1'' \<noteq> None
   \<and> get (proofs ex_reached) ''f1'' \<noteq> None
   \<and> map_option rv_verified (get (reviews ex_reached) ''v1'') = Some False
   \<and> map_option pf_status (get (proofs ex_reached) ''f1'') = Some ''pending''
   \<and> reachable_pts ex_reached_pts
   \<and> get (Reviews ex_reached_pts) ''v1'' \<noteq> None
   \<and> map_option rv_verified (get (Reviews ex_reached_pts) ''v1'') = Some False
   \<and> reachable_v2 ex_reached_v2
   \<and> get (reviews ex_reached_v2) ''v1'' \<noteq> None
   \<and> get (proofs ex_reached_v2) ''f1'' \<noteq> None
   \<and> map_option rv_verified (get (reviews ex_reached_v2) ''v1'') = Some False
   \<and> map_option pf_status (get (proofs ex_reached_v2) ''f1'') = Some ''pending''"
proof -
  note th = never_verified [THEN conjunct2, THEN conjunct2, THEN conjunct1, rule_format,
              OF reachable_ex_reached]
  note th_pts = never_verified [THEN conjunct2, THEN conjunct2, THEN conjunct2, THEN conjunct2,
              THEN conjunct1, rule_format, OF reachable_ex_reached_pts]
  note th_v2 = never_verified [THEN conjunct2, THEN conjunct2, THEN conjunct2, THEN conjunct2,
              THEN conjunct2, THEN conjunct2, THEN conjunct2, rule_format,
              OF reachable_ex_reached_v2]
  obtain r where r: "get (reviews ex_reached) ''v1'' = Some r"
    by (simp add: ex_reached_value get_def)
  obtain f where f: "get (proofs ex_reached) ''f1'' = Some f"
    by (simp add: ex_reached_value get_def)
  obtain q where q: "get (Reviews ex_reached_pts) ''v1'' = Some q"
    by (simp add: ex_reached_pts_value get_def)
  obtain r2 where r2: "get (reviews ex_reached_v2) ''v1'' = Some r2"
    by (simp add: ex_reached_v2_value get_def)
  obtain f2 where f2: "get (proofs ex_reached_v2) ''f1'' = Some f2"
    by (simp add: ex_reached_v2_value get_def)
  have "rv_verified r = False" using th r by blast
  moreover have "pf_status f = ''pending''" using th f by blast
  moreover have "rv_verified q = False" using th_pts q by blast
  moreover have "rv_verified r2 = False" using th_v2 r2 by blast
  moreover have "pf_status f2 = ''pending''" using th_v2 f2 by blast
  ultimately show ?thesis
    using r f q r2 f2 reachable_ex_reached reachable_ex_reached_pts reachable_ex_reached_v2
    by simp
qed

subsection \<open>Registration\<close>

lemma set_values_of: "set (values_of st) = {v. \<exists>k. get st k = Some v}"
  by (simp add: values_of_def get_def ran_map_of [symmetric] ran_def)

lemma find_values_of_None:
  "find P (values_of st) = None \<longleftrightarrow> (\<forall>k v. get st k = Some v \<longrightarrow> \<not> P v)"
  by (auto simp: find_None_iff set_values_of)

lemma strip_digits_id: "list_all is_digit t \<Longrightarrow> strip_non_digits t = t"
  by (induction t) (simp_all add: strip_non_digits_def)

lemma createResearcher_bad_phone:
  assumes "rp_name pl \<noteq> [] \<and> 2 \<le> length (trim (rp_name pl))"
    and "rp_address pl \<noteq> [] \<and> 5 \<le> length (trim (rp_address pl))"
    and "rp_email pl \<noteq> [] \<and> emailRegex_test (rp_email pl)"
    and "\<not> list_all is_digit (rp_phone pl) \<or> length (rp_phone pl) < 10 \<or> 15 < length (rp_phone pl)"
  shows "createResearcher s caller uuid pl
           = (s, Inl (InvalidPayload ''Phone number must be 10-15 digits.''))"
  using assms by (auto simp: createResearcher_def Let_def phoneRegex_test_def)

lemma createResearcher_good:
  assumes "rp_name pl \<noteq> [] \<and> 2 \<le> length (trim (rp_name pl))"
    and "rp_address pl \<noteq> [] \<and> 5 \<le> length (trim (rp_address pl))"
    and "rp_email pl \<noteq> [] \<and> emailRegex_test (rp_email pl)"
    and "list_all is_digit (rp_phone pl)" "10 \<le> length (rp_phone pl)" "length (rp_phone pl) \<le> 15"
    and "\<forall>k r. get (researchers s) k = Some r \<longrightarrow>
           r_email r \<noteq> rp_email pl \<and> r_phone r \<noteq> rp_phone pl"
  shows "\<exists>r. createResearcher s caller uuid pl
               = (s\<lparr>researchers := insert_store (researchers s) uuid r\<rparr>, Inr r)
           \<and> r_phone r = rp_phone pl \<and> r_id r = uuid
           \<and> r_email r = toLowerCase (trim (rp_email pl))"
proof -
  have "find (\<lambda>r. r_email r = rp_email pl \<or> r_phone r = rp_phone pl)
          (values_of (researchers s)) = None"
    using assms(7) by (auto simp: find_values_of_None)
  moreover have "rp_phone pl \<noteq> []" using assms(5) by auto
  ultimately show ?thesis
    using assms(1-6)
    by (simp add: createResearcher_def Let_def phoneRegex_test_def strip_digits_id)
qed

text \<open>
  C9, as stated, fails: a phone with ten digits and two dashes is rejected.
\<close>

theorem phone_separators_counterexample:
  "length (strip_non_digits (rp_phone ex_jane_dashes)) = 10
   \<and> createResearcher init_state ''alice'' ''r1'' (ex_jane_dashes\<lparr>rp_phone := ''1234567890''\<rparr>)
       = createResearcher init_state ''alice'' ''r1'' ex_jane
   \<and> fst (createResearcher init_state ''alice'' ''r1'' ex_jane) \<noteq> init_state
   \<and> createResearcher init_state ''alice'' ''r1'' ex_jane_dashes
       = (init_state, Inl (InvalidPayload ''Phone number must be 10-15 digits.''))"
  by (simp add: ex_jane_dashes_def ex_jane_def createResearcher_def Let_def init_state_def
        values_of_def insert_store_def string_eval)

text \<open>
  C9, amended. For a payload whose name, address and email pass their checks,
  \<^verbatim>\<open>createResearcher\<close> returns \<^verbatim>\<open>InvalidPayload\<close> and changes nothing when the phone
  contains a character that is not a digit, or has fewer than 10 or more than 15
  characters. When the phone consists of 10 to 15 digits and no stored researcher has the
  payload's email or phone, the researcher is stored and returned with the phone exactly
  as given.
\<close>

theorem createResearcher_phone_digits_only:
  assumes "rp_name pl \<noteq> [] \<and> 2 \<le> length (trim (rp_name pl))"
    and "rp_address pl \<noteq> [] \<and> 5 \<le> length (trim (rp_address pl))"
    and "rp_email pl \<noteq> [] \<and> emailRegex_test (rp_email pl)"
  shows "((\<exists>c\<in>set (rp_phone pl). \<not> is_digit c) \<or> length (rp_phone pl) < 10 \<or>
            15 < length (rp_phone pl) \<longrightarrow>
            createResearcher s caller uuid pl
              = (s, Inl (InvalidPayload ''Phone number must be 10-15 digits.'')))
       \<and> ((\<forall>c\<in>set (rp_phone pl). is_digit c) \<and> 10 \<le> length (rp_phone pl) \<and>
            length (rp_phone pl) \<le> 15 \<and>
            (\<forall>k r. get (researchers s) k = Some r \<longrightarrow>
               r_email r \<noteq> rp_email pl \<and> r_phone r \<noteq> rp_phone pl) \<longrightarrow>
            (\<exists>r. createResearcher s caller uuid pl
                   = (s\<lparr>researchers := insert_store (researchers s) uuid r\<rparr>, Inr r)
                \<and> r_phone r = rp_phone pl))"
proof (intro conjI impI)
  assume "(\<exists>c\<in>set (rp_phone pl). \<not> is_digit c) \<or> length (rp_phone pl) < 10 \<or>
            15 < length (rp_phone pl)"
  then have "\<not> list_all is_digit (rp_phone pl) \<or> length (rp_phone pl) < 10 \<or>
            15 < length (rp_phone pl)"
    by (auto simp: list_all_iff)
  then show "createResearcher s caller uuid pl
              = (s, Inl (InvalidPayload ''Phone number must be 10-15 digits.''))"
    by (rule createResearcher_bad_phone [OF assms])
next
  assume a: "(\<forall>c\<in>set (rp_phone pl). is_digit c) \<and> 10 \<le> length (rp_phone pl) \<and>
            length (rp_phone pl) \<le> 15 \<and>
            (\<forall>k r. get (researchers s) k = Some r \<longrightarrow>
               r_email r \<noteq> rp_email pl \<and> r_phone r \<noteq> rp_phone pl)"
  then have "list_all is_digit (rp_phone pl)" by (simp add: list_all_iff)
  from createResearcher_good [OF assms this, of s caller uuid] a
  show "\<exists>r. createResearcher s caller uuid pl
                   = (s\<lparr>researchers := insert_store (researchers s) uuid r\<rparr>, Inr r)
                \<and> r_phone r = rp_phone pl"
    by blast
qed

lemma ex_jane_valid:
  "rp_name ex_jane \<noteq> [] \<and> 2 \<le> length (trim (rp_name ex_jane))"
  "rp_address ex_jane \<noteq> [] \<and> 5 \<le> length (trim (rp_address ex_jane))"
  "rp_email ex_jane \<noteq> [] \<and> emailRegex_test (rp_email ex_jane)"
  by (simp_all add: ex_jane_def string_eval)

theorem createResearcher_phone_digits_only_witness:
  "(rp_name ex_jane \<noteq> [] \<and> 2 \<le> length (trim (rp_name ex_jane)))
   \<and> (rp_address ex_jane \<noteq> [] \<and> 5 \<le> length (trim (rp_address ex_jane)))
   \<and> (rp_email ex_jane \<noteq> [] \<and> emailRegex_test (rp_email ex_jane))
   \<and> list_all is_digit (rp_phone ex_jane) \<and> length (rp_phone ex_jane) = 10
   \<and> (\<exists>r. createResearcher init_state ''alice'' ''r1'' ex_jane
            = (init_state\<lparr>researchers := insert_store (researchers init_state) ''r1'' r\<rparr>, Inr r)
          \<and> r_phone r = ''1234567890'')
   \<and> \<not> list_all is_digit (rp_phone ex_jane_dashes)
   \<and> createResearcher init_state ''alice'' ''r1'' ex_jane_dashes
       = (init_state, Inl (InvalidPayload ''Phone number must be 10-15 digits.''))"
proof -
  have d: "list_all is_digit (rp_phone ex_jane)" "length (rp_phone ex_jane) = 10"
    by (simp_all add: ex_jane_def is_digit_def)
  have nd: "\<not> list_all is_digit (rp_phone ex_jane_dashes)"
    by (simp add: ex_jane_dashes_def ex_jane_def is_digit_def)
  have v2: "rp_name ex_jane_dashes \<noteq> [] \<and> 2 \<le> length (trim (rp_name ex_jane_dashes))"
    "rp_address ex_jane_dashes \<noteq> [] \<and> 5 \<le> length (trim (rp_address ex_jane_dashes))"
    "rp_email ex_jane_dashes \<noteq> [] \<and> emailRegex_test (rp_email ex_jane_dashes)"
    using ex_jane_valid by (simp_all add: ex_jane_dashes_def)
  have none: "\<forall>k r. get (researchers init_state) k = Some r \<longrightarrow>
               r_email r \<noteq> rp_email ex_jane \<and> r_phone r \<noteq> rp_phone ex_jane"
    by (simp add: init_state_def get_def)
  have good: "\<exists>r. createResearcher init_state ''alice'' ''r1'' ex_jane
            = (init_state\<lparr>researchers := insert_store (researchers init_state) ''r1'' r\<rparr>, Inr r)
          \<and> r_phone r = ''1234567890''"
    using createResearcher_phone_digits_only [OF ex_jane_valid, of init_state "''alice''" "''r1''",
            THEN conjunct2] d none
    by (simp add: list_all_iff ex_jane_def)
  have bad: "createResearcher init_state ''alice'' ''r1'' ex_jane_dashes
       = (init_state, Inl (InvalidPayload ''Phone number must be 10-15 digits.''))"
    using createResearcher_phone_digits_only [OF v2, of init_state "''alice''" "''r1''",
            THEN conjunct1] nd
    by (simp add: list_all_iff)
  show ?thesis using ex_jane_valid d nd good bad by simp
qed

lemma createResearcher_duplicate_exact:
  assumes "rp_name pl \<noteq> [] \<and> 2 \<le> length (trim (rp_name pl))"
    and "rp_address pl \<noteq> [] \<and> 5 \<le> length (trim (rp_address pl))"
    and "rp_email pl \<noteq> [] \<and> emailRegex_test (rp_email pl)"
    and "rp_phone pl \<noteq> [] \<and> phoneRegex_test (rp_phone pl)"
    and "get (researchers s) k = Some r"
    and "r_email r = rp_email pl \<or> r_phone r = rp_phone pl"
  shows "createResearcher s caller uuid pl
           = (s, Inl (InvalidPayload ''Researcher with this email or phone already exists.''))"
proof -
  have "find (\<lambda>r. r_email r = rp_email pl \<or> r_phone r = rp_phone pl)
          (values_of (researchers s)) \<noteq> None"
    using assms(5,6) by (auto simp: find_values_of_None)
  then show ?thesis
    using assms(1-4) by (auto simp: createResearcher_def Let_def)
qed

text \<open>
  C5 at a failing input. After Jane registered with the email \<^verbatim>\<open>Jane@X.org\<close>, which is
  stored as \<^verbatim>\<open>jane@x.org\<close>, a second registration with the same email and another phone
  is accepted: the scan for a duplicate compares the stored, lower-cased email with the
  email as typed. Two researchers with the email \<^verbatim>\<open>jane@x.org\<close> are stored. The same
  registration is rejected as a duplicate when the email is typed in lower case, and as
  malformed when it is typed with a leading space.
\<close>

theorem duplicate_email_accepted:
  "snd (createResearcher init_state ''alice'' ''r1'' ex_jane) =
     Inr \<lparr>r_id = ''r1'', r_name = ''Jane Doe'', r_address = ''12 Main St'',
          r_email = ''jane@x.org'', r_phone = ''1234567890'', r_owner = ''alice'',
          r_reputation_score = 0, r_total_points = 0, r_badges = [], r_contributions = [],
          r_achievements = []\<rparr>
   \<and> rp_email ex_jane_again = rp_email ex_jane
   \<and> toLowerCase (trim (rp_email ex_jane_again)) = ''jane@x.org''
   \<and> snd (createResearcher ex_registered ''bob'' ''r2'' ex_jane_again) =
     Inr \<lparr>r_id = ''r2'', r_name = ''Jane Doe'', r_address = ''12 Main St'',
          r_email = ''jane@x.org'', r_phone = ''0987654321'', r_owner = ''bob'',
          r_reputation_score = 0, r_total_points = 0, r_badges = [], r_contributions = [],
          r_achievements = []\<rparr>
   \<and> map r_email (values_of (researchers
         (fst (createResearcher ex_registered ''bob'' ''r2'' ex_jane_again))))
       = [''jane@x.org'', ''jane@x.org'']
   \<and> createResearcher ex_registered ''bob'' ''r2'' (ex_jane_again\<lparr>rp_email := ''jane@x.org''\<rparr>)
       = (ex_registered,
          Inl (InvalidPayload ''Researcher with this email or phone already exists.''))
   \<and> createResearcher ex_registered ''bob'' ''r2'' (ex_jane_again\<lparr>rp_email := '' Jane@X.org''\<rparr>)
       = (ex_registered, Inl (InvalidPayload ''Invalid email format.''))"
  by (simp add: ex_registered_def ex_jane_again_def ex_jane_def createResearcher_def Let_def
        init_state_def values_of_def insert_store_def string_eval)

subsection \<open>The ID check\<close>

text \<open>
  C8 at its failing inputs. When the ID is empty or consists of whitespace only, every
  handler of the first canister that checks it returns the \<^verbatim>\<open>Error\<close> variant with the
  text \<^verbatim>\<open>Error occured undefined\<close> and leaves the state unchanged: the \<^verbatim>\<open>InvalidPayload\<close>
  value thrown by \<^verbatim>\<open>idPayloadValid\<close> is caught by the handler's own \<^verbatim>\<open>catch\<close>.
  \<^verbatim>\<open>verifyMilestone\<close> does not check its proposal ID: with a blank proposal ID that names
  no stored proposal it returns \<^verbatim>\<open>NotFound\<close>. The second canister checks no ID at all.
\<close>

theorem blank_id_gives_Error:
  assumes "list_all is_ws i"
  shows "getResearcherById s i = Inl (Error ''Error occured undefined'')
       \<and> createProposal s uuid today
            \<lparr>cp_researcherId = i, cp_title = t, cp_description = d, cp_methodology = m,
             cp_funding_target = n\<rparr> = (s, Inl (Error ''Error occured undefined''))
       \<and> getProposalById s i = Inl (Error ''Error occured undefined'')
       \<and> getProposalsByResearcherId s i = Inl (Error ''Error occured undefined'')
       \<and> submitReview s te caller uuid
            \<lparr>sr_proposal_id = i, sr_score = n, sr_comments = t, sr_stake_amount = a\<rparr>
           = (s, Inl (Error ''Error occured undefined''))
       \<and> fundProposal s te \<lparr>fp_proposal_id = i, fp_funding_amount = a\<rparr>
           = (s, Inl (Error ''Error occured undefined''))
       \<and> createMilestone s te uuid
            \<lparr>cm_proposal_id = i, cm_description = d, cm_required_funding = n, cm_deadline = t\<rparr>
           = (s, Inl (Error ''Error occured undefined''))
       \<and> verifyMilestone s te \<lparr>vm_proposal_id = j, vm_milestone_id = i\<rparr>
           = (s, Inl (Error ''Error occured undefined''))
       \<and> submitProof s te uuid
            \<lparr>sp_milestone_id = i, sp_methodology_hash = t, sp_results_hash = d\<rparr>
           = (s, Inl (Error ''Error occured undefined''))
       \<and> (get (proposals s) i = None \<and> \<not> list_all is_ws j \<longrightarrow>
            verifyMilestone s te \<lparr>vm_proposal_id = i, vm_milestone_id = j\<rparr>
              = (s, Inl (NotFound ''Proposal or Milestone not found.'')))
       \<and> (get (researchers s) i = None \<longrightarrow>
            getResearcherById_v2 s i
              = Inl (NotFound (''Researcher with id='' @ i @ '' not found.'')))"
proof -
  note g = idPayloadValid_blank [OF assms]
  have v: "\<not> list_all is_ws j \<Longrightarrow> idPayloadValid j = Inr ()"
    by (simp add: idPayloadValid_iff)
  show ?thesis
    apply (intro conjI impI)
              apply (simp add: getResearcherById_def g caught_def)
             apply (simp add: createProposal_def g caught_def)
            apply (simp add: getProposalById_def g caught_def)
           apply (simp add: getProposalsByResearcherId_def g caught_def)
          apply (simp add: submitReview_def g caught_def)
         apply (simp add: fundProposal_def g caught_def)
        apply (simp add: createMilestone_def g caught_def)
       apply (simp add: verifyMilestone_def g caught_def)
      apply (simp add: submitProof_def g caught_def)
     apply (simp add: verifyMilestone_def v falsy_get_or_null)
    apply (simp add: getResearcherById_v2_def)
    done
qed

theorem blank_id_gives_Error_witness:
  "list_all is_ws ''''
   \<and> list_all is_ws '' ''
   \<and> getResearcherById ex_state '''' = Inl (Error ''Error occured undefined'')
   \<and> getResearcherById_v2 ex_state '''' = Inl (NotFound ''Researcher with id= not found.'')
   \<and> fundProposal ex_state ex_text \<lparr>fp_proposal_id = '' '', fp_funding_amount = 100\<rparr>
       = (ex_state, Inl (Error ''Error occured undefined''))
   \<and> verifyMilestone ex_state ex_text \<lparr>vm_proposal_id = ''p1'', vm_milestone_id = '' ''\<rparr>
       = (ex_state, Inl (Error ''Error occured undefined''))
   \<and> verifyMilestone ex_state ex_text \<lparr>vm_proposal_id = '' '', vm_milestone_id = ''m1''\<rparr>
       = (ex_state, Inl (NotFound ''Proposal or Milestone not found.''))"
proof -
  have e: "list_all is_ws ''''" and b: "list_all is_ws '' ''"
    by (simp_all add: is_ws_def)
  have n: "get (proposals ex_state) '' '' = None" "get (researchers ex_state) '''' = None"
    and m: "\<not> list_all is_ws ''m1''"
    by (simp_all add: ex_state_value get_def is_ws_def)
  note th_e = blank_id_gives_Error [OF e, where s = ex_state]
  note th_b = blank_id_gives_Error [OF b, where s = ex_state and te = ex_text and a = 100 and j = "''p1''"]
  note th_c = blank_id_gives_Error [OF b, where s = ex_state and te = ex_text and j = "''m1''"]
  show ?thesis
    using e b th_e n m th_b th_c by simp
qed

end
